theory Spec2Isabelle
  imports Complex_Main "HOL-Library.Word"
begin

section \<open>JavaScript values\<close>

text \<open>
  A JavaScript string is a sequence of 16-bit code units. String literals of the source
  are ASCII and are written \<open>lit ''...''\<close>.
\<close>

type_synonym jschar = "16 word"
type_synonym jsstring = "jschar list"

definition lit :: "string \<Rightarrow> jsstring" where
  "lit s = map (\<lambda>c. of_nat (of_char c)) s"

text \<open>
  The values that reach the functions below: \<open>undefined\<close>, and what \<open>JSON.parse\<close>
  produces. An object is the list of its own properties; \<open>NaN\<close> is not a JSON value and
  is not represented.
\<close>

datatype jsval =
    JUndefined
  | JNull
  | JBool bool
  | JNum real
  | JStr jsstring
  | JArr "jsval list"
  | JObj "(jsstring \<times> jsval) list"

text \<open>A thrown value: an \<open>Error\<close> (or subclass) with its message, or anything else.\<close>

datatype js_exn = JsError jsstring | JsNonError

text \<open>\<open>!!v\<close>\<close>

fun truthy :: "jsval \<Rightarrow> bool" where
  "truthy JUndefined = False"
| "truthy JNull = False"
| "truthy (JBool b) = b"
| "truthy (JNum n) = (n \<noteq> 0)"
| "truthy (JStr s) = (s \<noteq> [])"
| "truthy (JArr xs) = True"
| "truthy (JObj kvs) = True"

text \<open>\<open>typeof v\<close>\<close>

fun typeof :: "jsval \<Rightarrow> string" where
  "typeof JUndefined = ''undefined''"
| "typeof JNull = ''object''"
| "typeof (JBool b) = ''boolean''"
| "typeof (JNum n) = ''number''"
| "typeof (JStr s) = ''string''"
| "typeof (JArr xs) = ''object''"
| "typeof (JObj kvs) = ''object''"

text \<open>
  \<open>v.k\<close> for a \<open>v\<close> that is neither \<open>undefined\<close> nor \<open>null\<close>, and a name \<open>k\<close> that no
  built-in prototype defines (\<open>role\<close>, \<open>content\<close>, \<open>choices\<close>, \<open>message\<close>, \<open>text\<close>,
  \<open>audio_base64\<close>, \<open>transcript\<close>, \<open>assistantReply\<close>, \<open>audioBase64\<close>, \<open>error\<close>): only an
  object can have such a property. It is also \<open>error.name\<close> for a rejection value, whose
  properties are all listed as its own. When a key is repeated, \<open>JSON.parse\<close> keeps the
  last value, which is the one the parser is taken to list first.
\<close>

fun get_prop :: "jsstring \<Rightarrow> jsval \<Rightarrow> jsval" where
  "get_prop k (JObj kvs) = (case map_of kvs k of None \<Rightarrow> JUndefined | Some v \<Rightarrow> v)"
| "get_prop k v = JUndefined"

text \<open>\<open>v[0]\<close> for a \<open>v\<close> that is neither \<open>undefined\<close> nor \<open>null\<close>.\<close>

fun index0 :: "jsval \<Rightarrow> jsval" where
  "index0 (JArr xs) = (case xs of [] \<Rightarrow> JUndefined | x # _ \<Rightarrow> x)"
| "index0 (JStr s) = (case s of [] \<Rightarrow> JUndefined | c # _ \<Rightarrow> JStr [c])"
| "index0 (JObj kvs) = get_prop (lit ''0'') (JObj kvs)"
| "index0 v = JUndefined"

text \<open>\<open>v === undefined || v === null\<close>\<close>

fun nullish :: "jsval \<Rightarrow> bool" where
  "nullish JUndefined = True"
| "nullish JNull = True"
| "nullish v = False"

text \<open>
  \<open>String.prototype.trim\<close>: strips white space and line terminators (ECMAScript
  \<open>WhiteSpace\<close> and \<open>LineTerminator\<close>) from both ends.
\<close>

definition is_ws :: "jschar \<Rightarrow> bool" where
  "is_ws c = (c = 0x9 \<or> c = 0xA \<or> c = 0xB \<or> c = 0xC \<or> c = 0xD \<or> c = 0x20 \<or> c = 0xA0
     \<or> c = 0x1680 \<or> (0x2000 \<le> c \<and> c \<le> 0x200A) \<or> c = 0x2028 \<or> c = 0x2029
     \<or> c = 0x202F \<or> c = 0x205F \<or> c = 0x3000 \<or> c = 0xFEFF)"

definition trim :: "jsstring \<Rightarrow> jsstring" where
  "trim s = rev (dropWhile is_ws (rev (dropWhile is_ws s)))"

section \<open>Chat history normalization (server.js)\<close>

record chat_message =
  role :: jsstring
  content :: jsstring

text \<open>The callback of \<open>.map\<close> in \<open>normalizeChatHistory\<close>; \<open>None\<close> is its \<open>null\<close>.\<close>

definition normalize_entry :: "jsval \<Rightarrow> chat_message option" where
  "normalize_entry entry =
     (let role = (if get_prop (lit ''role'') entry = JStr (lit ''assistant'') then Some (lit ''assistant'')
                  else if get_prop (lit ''role'') entry = JStr (lit ''user'') then Some (lit ''user'')
                  else None);
          content = (case get_prop (lit ''content'') entry of JStr s \<Rightarrow> trim s | _ \<Rightarrow> [])
      in case role of
           None \<Rightarrow> None
         | Some r \<Rightarrow> if content \<noteq> [] then Some \<lparr>role = r, content = content\<rparr> else None)"

text \<open>
  \<open>normalizeChatHistory(raw)\<close>. \<open>JSON.parse\<close> is the parameter \<open>parse\<close>; \<open>Inl\<close> is its
  \<open>SyntaxError\<close>, which the source catches. \<open>.map(f).filter(Boolean)\<close> is
  \<open>List.map_filter f\<close>.
\<close>

definition normalizeChatHistory :: "(jsstring \<Rightarrow> js_exn + jsval) \<Rightarrow> jsval \<Rightarrow> chat_message list" where
  "normalizeChatHistory parse raw =
     (if \<not> truthy raw then []
      else
        case (case raw of JStr s \<Rightarrow> parse s | _ \<Rightarrow> Inr raw) of
          Inl error \<Rightarrow> []
        | Inr parsed \<Rightarrow>
            (case parsed of
               JArr xs \<Rightarrow>
                 List.map_filter normalize_entry
                   (filter (\<lambda>entry. truthy entry \<and> typeof entry = ''object'') xs)
             | _ \<Rightarrow> []))"

section \<open>Configuration and external services (server.js)\<close>

record config =
  appTitle :: jsstring
  whisperUrl :: jsstring
  whisperTranslate :: bool
  llmBaseUrl :: jsstring
  llmApiKey :: jsstring
  llmModel :: jsstring
  llmSystem :: jsstring
  llmPreprompt :: jsstring
  llmPostprompt :: jsstring
  qwenTtsUrl :: jsstring
  qwenTtsLang :: jsstring

text \<open>\<open>process.env.NAME ?? fallback\<close>: an unset variable is \<open>undefined\<close>, a set one is a string.\<close>

definition env_or :: "(jsstring \<rightharpoonup> jsstring) \<Rightarrow> string \<Rightarrow> string \<Rightarrow> jsstring" where
  "env_or env name fallback = (case env (lit name) of None \<Rightarrow> lit fallback | Some v \<Rightarrow> v)"

definition load_config :: "(jsstring \<rightharpoonup> jsstring) \<Rightarrow> config" where
  "load_config env =
     \<lparr>appTitle = env_or env ''APP_TITLE'' ''Voice Webchat'',
      whisperUrl = env_or env ''WHISPER_SERVER_URL'' ''http://127.0.0.1:9191/inference'',
      whisperTranslate =
        (env (lit ''WHISPER_TRANSLATE'') = Some (lit ''true'')
         \<or> env (lit ''WHISPER_TRANSLATE'') = Some (lit ''1'')),
      llmBaseUrl = env_or env ''LLM_BASE_URL'' ''http://127.0.0.1:9090/v1'',
      llmApiKey = env_or env ''LLM_API_KEY'' ''LAN'',
      llmModel = env_or env ''LLM_MODEL'' ''qwen3'',
      llmSystem = env_or env ''LLM_SYSTEM'' ''You are a helpful assistant.'',
      llmPreprompt =
        env_or env ''LLM_PREPROMPT''
          ''Use the following transcription to respond conversationally.'',
      llmPostprompt = env_or env ''LLM_POSTPROMPT'' [],
      qwenTtsUrl = env_or env ''QWEN_TTS_URL'' ''http://127.0.0.1:8000'',
      qwenTtsLang = env_or env ''QWEN_TTS_LANG'' ''Auto''\<rparr>"

type_synonym bytes = "8 word list"

text \<open>
  \<open>new Blob([data], {type})\<close>: the type is kept in lower case, and is empty when it has
  a character outside U+0020 to U+007E.
\<close>

record blob =
  blob_data :: bytes
  blob_type :: jsstring

definition ascii_lower :: "jschar \<Rightarrow> jschar" where
  "ascii_lower c = (if 0x41 \<le> c \<and> c \<le> 0x5A then c + 0x20 else c)"

definition new_blob :: "bytes \<Rightarrow> jsstring \<Rightarrow> blob" where
  "new_blob data type_option =
     \<lparr>blob_data = data,
      blob_type = (if list_all (\<lambda>c. 0x20 \<le> c \<and> c \<le> 0x7E) type_option
                   then map ascii_lower type_option else [])\<rparr>"

text \<open>The multipart form \<open>transcribeAudio\<close> posts; \<open>form_translate\<close> is absent unless appended.\<close>

record whisper_form =
  form_file :: blob
  form_filename :: jsstring
  form_response_format :: jsstring
  form_translate :: "jsstring option"

text \<open>
  What \<open>fetch\<close> resolves to: the status line and the outcome of \<open>response.text()\<close>.
  \<open>response.ok\<close> is the Fetch API's test on the status.
\<close>

record http_response =
  status :: nat
  text_body :: "js_exn + jsstring"

definition ok :: "http_response \<Rightarrow> bool" where
  "ok response = (200 \<le> status response \<and> status response \<le> 299)"

record llm_request =
  model :: jsstring
  messages :: "chat_message list"
  temperature :: real

record tts_payload =
  ref_audio_base64 :: jsstring
  ref_text :: jsstring
  syn_text :: jsstring
  syn_lang :: jsstring

text \<open>
  The collaborators of the server, as functions of the request they receive: the three
  network services (\<open>Inl\<close> is a rejected promise), and the built-ins \<open>JSON.parse\<close> and
  \<open>Buffer.toString("base64")\<close>.
\<close>

record services =
  whisper :: "jsstring \<Rightarrow> whisper_form \<Rightarrow> js_exn + http_response"
  llm :: "llm_request \<Rightarrow> js_exn + jsval"
  tts :: "jsstring \<Rightarrow> tts_payload \<Rightarrow> js_exn + http_response"
  json_parse :: "jsstring \<Rightarrow> js_exn + jsval"
  base64 :: "bytes \<Rightarrow> jsstring"

text \<open>What a turn does to the outside world, in order.\<close>

datatype effect =
    WhisperFetch jsstring whisper_form
  | LlmCreate llm_request
  | TtsFetch jsstring tts_payload
  | ConsoleError js_exn

type_synonym 'a io = "(js_exn + 'a) \<times> effect list"

text \<open>A number in a template literal: its decimal digits.\<close>

fun show_nat :: "nat \<Rightarrow> jsstring" where
  "show_nat n =
     (if n < 10 then [of_nat (48 + n)]
      else show_nat (n div 10) @ [of_nat (48 + n mod 10)])"

declare show_nat.simps [simp del]

text \<open>
  The \<open>TypeError\<close> of V8 for a property read on \<open>undefined\<close> or \<open>null\<close>; \<open>0x27\<close> is the
  single quote around the property name.
\<close>

definition cannot_read :: "jsval \<Rightarrow> string \<Rightarrow> js_exn" where
  "cannot_read v name =
     JsError (lit ''Cannot read properties of ''
              @ lit (if v = JNull then ''null'' else ''undefined'')
              @ lit '' (reading '' @ [0x27] @ lit name @ [0x27] @ lit '')'')"

section \<open>The three service adapters (server.js)\<close>

definition responseFormat :: jsstring where
  "responseFormat = lit ''text''"

text \<open>Lines 56 to 66 of \<open>transcribeAudio\<close>: the form.\<close>

definition whisper_form_of :: "bytes \<Rightarrow> jsstring \<Rightarrow> jsstring \<Rightarrow> bool \<Rightarrow> whisper_form" where
  "whisper_form_of audioBuffer filename mimeType translate =
     \<lparr>form_file =
        new_blob audioBuffer (if mimeType \<noteq> [] then mimeType else lit ''audio/webm''),
      form_filename = (if filename \<noteq> [] then filename else lit ''recording.webm''),
      form_response_format = responseFormat,
      form_translate = (if translate then Some (lit ''true'') else None)\<rparr>"

definition transcribeAudio ::
  "config \<Rightarrow> services \<Rightarrow> bytes \<Rightarrow> jsstring \<Rightarrow> jsstring \<Rightarrow> bool \<Rightarrow> jsstring io" where
  "transcribeAudio cfg sv audioBuffer filename mimeType translate =
     (let form = whisper_form_of audioBuffer filename mimeType translate;
          sent = [WhisperFetch (whisperUrl cfg) form]
      in case whisper sv (whisperUrl cfg) form of
           Inl e \<Rightarrow> (Inl e, sent)
         | Inr response \<Rightarrow>
             (case text_body response of
                Inl e \<Rightarrow> (Inl e, sent)
              | Inr raw \<Rightarrow>
                  if \<not> ok response then
                    (Inl (JsError (lit ''Whisper server error: '' @ show_nat (status response)
                                   @ lit '' '' @ raw)), sent)
                  else if responseFormat = lit ''text'' then (Inr (trim raw), sent)
                  else
                    (case json_parse sv raw of
                       Inl e \<Rightarrow> (Inr (trim raw), sent)
                     | Inr json \<Rightarrow>
                         if nullish json then (Inr (trim raw), sent)
                         else
                           (case get_prop (lit ''text'') json of
                              JStr t \<Rightarrow> (Inr (trim t), sent)
                            | _ \<Rightarrow> (Inr (trim raw), sent)))))"

text \<open>Lines 120 to 132 of \<open>generateAssistantReply\<close>: the message list.\<close>

definition build_messages :: "config \<Rightarrow> jsstring \<Rightarrow> chat_message list \<Rightarrow> chat_message list" where
  "build_messages cfg transcript chatHistory =
     [\<lparr>role = lit ''system'', content = llmSystem cfg\<rparr>,
      \<lparr>role = lit ''user'', content = llmPreprompt cfg\<rparr>]
     @ (if length chatHistory > 0 then chatHistory else [])
     @ [\<lparr>role = lit ''user'', content = transcript\<rparr>]
     @ (if llmPostprompt cfg \<noteq> [] then [\<lparr>role = lit ''user'', content = llmPostprompt cfg\<rparr>]
        else [])"

text \<open>\<open>completion.choices?.[0]?.message?.content\<close>\<close>

definition message_content :: "jsval \<Rightarrow> js_exn + jsval" where
  "message_content completion =
     (if nullish completion then Inl (cannot_read completion ''choices'')
      else
        let choices = get_prop (lit ''choices'') completion in
        if nullish choices then Inr JUndefined
        else
          let first = index0 choices in
          if nullish first then Inr JUndefined
          else
            let message = get_prop (lit ''message'') first in
            if nullish message then Inr JUndefined
            else Inr (get_prop (lit ''content'') message))"

text \<open>
  \<open>content?.trim()\<close>: \<open>None\<close> is \<open>undefined\<close>. Only a string has a \<open>trim\<close> method; calling
  the missing method of any other value is a \<open>TypeError\<close>.
\<close>

definition trim_call :: "jsval \<Rightarrow> js_exn + jsstring option" where
  "trim_call c =
     (if nullish c then Inr None
      else case c of
             JStr s \<Rightarrow> Inr (Some (trim s))
           | _ \<Rightarrow>
               Inl (JsError
                 (lit ''completion.choices?.[0]?.message?.content?.trim is not a function'')))"

text \<open>The argument of \<open>openai.chat.completions.create\<close>.\<close>

definition completion_request :: "config \<Rightarrow> jsstring \<Rightarrow> chat_message list \<Rightarrow> llm_request" where
  "completion_request cfg transcript chatHistory =
     \<lparr>model = llmModel cfg,
      messages = build_messages cfg transcript chatHistory,
      temperature = 7 / 10\<rparr>"

definition generateAssistantReply ::
  "config \<Rightarrow> services \<Rightarrow> jsstring \<Rightarrow> chat_message list \<Rightarrow> jsstring io" where
  "generateAssistantReply cfg sv transcript chatHistory =
     (let request = completion_request cfg transcript chatHistory;
          sent = [LlmCreate request]
      in case llm sv request of
           Inl e \<Rightarrow> (Inl e, sent)
         | Inr completion \<Rightarrow>
             (case message_content completion of
                Inl e \<Rightarrow> (Inl e, sent)
              | Inr c \<Rightarrow>
                  (case trim_call c of
                     Inl e \<Rightarrow> (Inl e, sent)
                   | Inr None \<Rightarrow> (Inl (JsError (lit ''LLM response was empty.'')), sent)
                   | Inr (Some reply) \<Rightarrow>
                       if reply = [] then (Inl (JsError (lit ''LLM response was empty.'')), sent)
                       else (Inr reply, sent))))"

text \<open>\<open>url.replace(/\/$/, "")\<close>\<close>

definition strip_trailing_slash :: "jsstring \<Rightarrow> jsstring" where
  "strip_trailing_slash url = (if url \<noteq> [] \<and> last url = 0x2F then butlast url else url)"

text \<open>Lines 148 to 155 of \<open>synthesizeSpeech\<close>: the payload and the address.\<close>

definition clone_payload :: "services \<Rightarrow> jsstring \<Rightarrow> bytes \<Rightarrow> jsstring \<Rightarrow> jsstring \<Rightarrow> tts_payload" where
  "clone_payload sv text refAudioBuffer refText synLang =
     \<lparr>ref_audio_base64 = base64 sv refAudioBuffer,
      ref_text = refText,
      syn_text = text,
      syn_lang = synLang\<rparr>"

definition clone_url :: "config \<Rightarrow> jsstring" where
  "clone_url cfg = strip_trailing_slash (qwenTtsUrl cfg) @ lit ''/clone''"

definition synthesizeSpeech ::
  "config \<Rightarrow> services \<Rightarrow> jsstring \<Rightarrow> bytes \<Rightarrow> jsstring \<Rightarrow> jsstring \<Rightarrow> jsval io" where
  "synthesizeSpeech cfg sv text refAudioBuffer refText synLang =
     (let payload = clone_payload sv text refAudioBuffer refText synLang;
          url = clone_url cfg;
          sent = [TtsFetch url payload]
      in case tts sv url payload of
           Inl e \<Rightarrow> (Inl e, sent)
         | Inr response \<Rightarrow>
             (case text_body response of
                Inl e \<Rightarrow> (Inl e, sent)
              | Inr responseBody \<Rightarrow>
                  if \<not> ok response then
                    (Inl (JsError (lit ''TTS server error: '' @ show_nat (status response)
                                   @ lit '' '' @ responseBody)), sent)
                  else
                    (case json_parse sv responseBody of
                       Inl e \<Rightarrow> (Inl e, sent)
                     | Inr json \<Rightarrow>
                         if nullish json then (Inl (cannot_read json ''audio_base64''), sent)
                         else if \<not> truthy (get_prop (lit ''audio_base64'') json) then
                           (Inl (JsError (lit ''TTS response missing audio_base64.'')), sent)
                         else (Inr (get_prop (lit ''audio_base64'') json), sent))))"

section \<open>The turn endpoint (server.js)\<close>

text \<open>\<open>req.file\<close> as multer's memory storage fills it.\<close>

record upload =
  buffer :: bytes
  originalname :: jsstring
  mimetype :: jsstring

text \<open>
  A request as \<open>upload.single("audio")\<close> hands it to the handler. Multer leaves a request
  that is not multipart untouched: \<open>req.file\<close> and \<open>req.body\<close> are both \<open>undefined\<close>. Of a
  multipart request it sets \<open>req.body\<close> to the object of the text fields and \<open>req.file\<close>
  to the \<open>audio\<close> part when there is one; the only field the handler reads is
  \<open>chatHistory\<close>, given here with \<open>JUndefined\<close> for a field that was not sent.
\<close>

datatype chat_request = NotMultipart | Multipart "upload option" jsval

fun req_file :: "chat_request \<Rightarrow> upload option" where
  "req_file NotMultipart = None"
| "req_file (Multipart audio field) = audio"

fun req_body :: "chat_request \<Rightarrow> jsval" where
  "req_body NotMultipart = JUndefined"
| "req_body (Multipart audio field) =
     JObj (if field = JUndefined then [] else [(lit ''chatHistory'', field)])"

text \<open>\<open>req.body.chatHistory\<close>, once \<open>req.body\<close> is known to be set.\<close>

definition req_chatHistory :: "chat_request \<Rightarrow> jsval" where
  "req_chatHistory req = get_prop (lit ''chatHistory'') (req_body req)"

record reference_voice =
  referenceAudioBuffer :: bytes
  referenceText :: jsstring

text \<open>\<open>res.status(n).json(v)\<close>\<close>

record http_reply =
  reply_status :: nat
  reply_json :: jsval

text \<open>\<open>error instanceof Error ? error.message : "Unknown error."\<close>\<close>

definition error_message :: "js_exn \<Rightarrow> jsstring" where
  "error_message error = (case error of JsError m \<Rightarrow> m | JsNonError \<Rightarrow> lit ''Unknown error.'')"

text \<open>The \<open>catch\<close> block of the handler.\<close>

definition handler_catch :: "js_exn \<Rightarrow> effect list \<Rightarrow> http_reply \<times> effect list" where
  "handler_catch error done =
     (\<lparr>reply_status = 500,
       reply_json = JObj [(lit ''error'', JStr (error_message error))]\<rparr>,
      done @ [ConsoleError error])"

text \<open>\<open>const synLang = (config.qwenTtsLang || "Auto").trim() || "Auto"\<close>\<close>

definition synLang :: "config \<Rightarrow> jsstring" where
  "synLang cfg =
     (let t = trim (if qwenTtsLang cfg \<noteq> [] then qwenTtsLang cfg else lit ''Auto'')
      in if t \<noteq> [] then t else lit ''Auto'')"

text \<open>
  The handler of \<open>POST /api/chat\<close>. Its first statements are inside the \<open>try\<close>: reading
  \<open>req.body.chatHistory\<close> of a request without a body throws before the file is looked
  at.
\<close>

definition chat_handler ::
  "config \<Rightarrow> services \<Rightarrow> reference_voice \<Rightarrow> chat_request \<Rightarrow> http_reply \<times> effect list" where
  "chat_handler cfg sv ref req =
     (let audioFile = req_file req;
          translate = whisperTranslate cfg
      in if nullish (req_body req) then
           handler_catch (cannot_read (req_body req) ''chatHistory'') []
         else
           (let chatHistory = normalizeChatHistory (json_parse sv) (req_chatHistory req)
            in case audioFile of
                 None \<Rightarrow>
                   (\<lparr>reply_status = 400,
                     reply_json = JObj [(lit ''error'', JStr (lit ''Missing recorded audio.''))]\<rparr>,
                    [])
               | Some f \<Rightarrow>
                   (case transcribeAudio cfg sv (buffer f) (originalname f) (mimetype f)
                           translate of
                      (Inl e, fx1) \<Rightarrow> handler_catch e fx1
                    | (Inr transcript, fx1) \<Rightarrow>
                        (case generateAssistantReply cfg sv transcript chatHistory of
                           (Inl e, fx2) \<Rightarrow> handler_catch e (fx1 @ fx2)
                         | (Inr assistantReply, fx2) \<Rightarrow>
                             (case synthesizeSpeech cfg sv assistantReply
                                     (referenceAudioBuffer ref) (referenceText ref)
                                     (synLang cfg) of
                                (Inl e, fx3) \<Rightarrow> handler_catch e (fx1 @ fx2 @ fx3)
                              | (Inr audioBase64, fx3) \<Rightarrow>
                                  (\<lparr>reply_status = 200,
                                    reply_json =
                                      JObj [(lit ''transcript'', JStr transcript),
                                            (lit ''assistantReply'', JStr assistantReply),
                                            (lit ''audioBase64'', audioBase64)]\<rparr>,
                                   fx1 @ fx2 @ fx3))))))"

section \<open>The browser client (public/app.js and its staged variant)\<close>

text \<open>An element of the client's \<open>chatHistory\<close> array: \<open>{ role, content, audioBase64 }\<close>.\<close>

record chat_entry =
  entry_role :: jsstring
  entry_content :: jsval
  entry_audioBase64 :: jsval

text \<open>\<open>MediaRecorder.state\<close>; the script never pauses a recorder.\<close>

datatype recorder_state = Inactive | Active

record media_recorder =
  rec_stream :: nat
  rec_state :: recorder_state
  rec_mimeType :: jsstring

text \<open>
  The module-level variables of the script, the page elements it writes, and what the
  browser holds for it. \<open>chatLog\<close> is \<open>None\<close> when the page has no such element, and
  otherwise the entries whose message elements it shows. \<open>micRequests\<close> counts the calls
  of \<open>getUserMedia\<close>, \<open>micPending\<close> those not yet settled, \<open>liveStreams\<close> the streams whose
  tracks run, \<open>stopPending\<close> says that \<open>stopRecording\<close> waits for the \<open>stop\<close> event,
  \<open>played\<close> lists the audio values whose element was played, and \<open>recordDisabled\<close> is the
  \<open>disabled\<close> attribute of the record button. A recorder that is replaced while it
  still records is no longer followed.
\<close>

record client =
  mediaRecorder :: "media_recorder option"
  audioChunks :: "bytes list"
  isRecording :: bool
  chatHistory :: "chat_entry list"
  statusEl :: jsstring
  recordButton :: jsstring
  chatLog :: "chat_entry list option"
  micRequests :: nat
  micPending :: nat
  liveStreams :: "nat list"
  stopPending :: bool
  played :: "jsval list"
  recordDisabled :: bool

text \<open>
  What the browser provides: whether \<open>window.MediaRecorder\<close> exists, its
  \<open>isTypeSupported\<close> when it has one, the container a recorder picks by itself, and the
  built-ins \<open>String(v)\<close> (used on values that are not strings) and \<open>JSON.stringify\<close>.
\<close>

record browser =
  hasMediaRecorder :: bool
  isTypeSupported :: "(jsstring \<Rightarrow> bool) option"
  defaultMimeType :: jsstring
  to_string :: "jsval \<Rightarrow> jsstring"
  stringify :: "jsval \<Rightarrow> jsstring"

definition to_str :: "browser \<Rightarrow> jsval \<Rightarrow> jsstring" where
  "to_str b v = (case v of JStr s \<Rightarrow> s | _ \<Rightarrow> to_string b v)"

definition preferredMimeTypes :: "jsstring list" where
  "preferredMimeTypes =
     [lit ''audio/webm;codecs=opus'', lit ''audio/webm'', lit ''audio/ogg;codecs=opus'',
      lit ''audio/ogg'']"

definition getSupportedMimeType :: "browser \<Rightarrow> jsstring" where
  "getSupportedMimeType b =
     (if \<not> hasMediaRecorder b then []
      else case isTypeSupported b of
             None \<Rightarrow> []
           | Some supported \<Rightarrow>
               (case List.find supported preferredMimeTypes of None \<Rightarrow> [] | Some t \<Rightarrow> t))"

text \<open>\<open>String.prototype.includes\<close>\<close>

fun starts_with :: "jsstring \<Rightarrow> jsstring \<Rightarrow> bool" where
  "starts_with s [] = True"
| "starts_with [] (c # cs) = False"
| "starts_with (x # xs) (c # cs) = (x = c \<and> starts_with xs cs)"

fun str_includes :: "jsstring \<Rightarrow> jsstring \<Rightarrow> bool" where
  "str_includes [] sub = (sub = [])"
| "str_includes (x # xs) sub = (starts_with (x # xs) sub \<or> str_includes xs sub)"

definition extensionForMimeType :: "jsstring \<Rightarrow> jsstring" where
  "extensionForMimeType mimeType =
     (if mimeType = [] then lit ''webm''
      else if str_includes mimeType (lit ''ogg'') then lit ''ogg''
      else if str_includes mimeType (lit ''wav'') then lit ''wav''
      else if str_includes mimeType (lit ''webm'') then lit ''webm''
      else lit ''webm'')"

definition setStatus :: "jsstring \<Rightarrow> client \<Rightarrow> client" where
  "setStatus message c = c\<lparr>statusEl := message\<rparr>"

definition updateRecordButton :: "client \<Rightarrow> client" where
  "updateRecordButton c =
     c\<lparr>recordButton := (if isRecording c then lit ''Stop chatting'' else lit ''Start chatting'')\<rparr>"

definition renderChat :: "client \<Rightarrow> client" where
  "renderChat c = (case chatLog c of None \<Rightarrow> c | Some shown \<Rightarrow> c\<lparr>chatLog := Some (chatHistory c)\<rparr>)"

definition appendChatMessage :: "jsstring \<Rightarrow> jsval \<Rightarrow> jsval \<Rightarrow> client \<Rightarrow> client" where
  "appendChatMessage a_role a_content audioBase64 c =
     (if \<not> truthy a_content then c
      else renderChat
             (c\<lparr>chatHistory :=
                  chatHistory c
                  @ [\<lparr>entry_role = a_role, entry_content = a_content,
                      entry_audioBase64 = audioBase64\<rparr>]\<rparr>))"

definition clearChat :: "client \<Rightarrow> client" where
  "clearChat c = renderChat (c\<lparr>chatHistory := []\<rparr>)"

text \<open>
  The \<open>audio\<close> elements of the log are those of the assistant entries with an audio
  value; the last one is played.
\<close>

definition playLatestAssistantAudio :: "client \<Rightarrow> client" where
  "playLatestAssistantAudio c =
     (case chatLog c of
        None \<Rightarrow> c
      | Some shown \<Rightarrow>
          (case rev (filter (\<lambda>entry. entry_role entry = lit ''assistant''
                                     \<and> truthy (entry_audioBase64 entry)) shown) of
             [] \<Rightarrow> c
           | latestAudio # _ \<Rightarrow> c\<lparr>played := played c @ [entry_audioBase64 latestAudio]\<rparr>))"

text \<open>\<open>"name" in error\<close>, for an error whose properties are listed as its own.\<close>

fun has_prop :: "jsstring \<Rightarrow> jsval \<Rightarrow> bool" where
  "has_prop k (JObj kvs) = (map_of kvs k \<noteq> None)"
| "has_prop k v = False"

definition formatMicError :: "jsval \<Rightarrow> jsstring" where
  "formatMicError error =
     (if truthy error \<and> typeof error = ''object'' \<and> has_prop (lit ''name'') error then
        (let name = get_prop (lit ''name'') error
         in if name = JStr (lit ''NotAllowedError'') then
              lit ''Microphone access was blocked. Allow it in the browser permissions.''
            else if name = JStr (lit ''NotFoundError'') then
              lit ''No microphone was found. Check your audio input.''
            else if name = JStr (lit ''NotReadableError'') then
              lit ''The microphone is in use by another application.''
            else if name = JStr (lit ''SecurityError'') then
              lit ''Microphone access requires HTTPS or localhost.''
            else lit ''Failed to access microphone.'')
      else lit ''Failed to access microphone.'')"

text \<open>The \<open>.catch\<close> of the record button's click listener.\<close>

definition click_catch :: "js_exn \<Rightarrow> client \<Rightarrow> client" where
  "click_catch error c =
     setStatus (case error of
                  JsError m \<Rightarrow> m
                | JsNonError \<Rightarrow> lit ''Failed to start or stop recording.'') c"

text \<open>
  \<open>startRecording\<close> up to its \<open>await\<close>: the guard, the status line and the call of
  \<open>getUserMedia\<close>.
\<close>

definition startRecording_begin :: "client \<Rightarrow> client" where
  "startRecording_begin c =
     (if isRecording c then c
      else (setStatus (lit ''Requesting microphone access...'') c)
             \<lparr>micRequests := micRequests c + 1, micPending := micPending c + 1\<rparr>)"

text \<open>
  \<open>startRecording\<close> after \<open>getUserMedia\<close> resolved with a stream. Without
  \<open>window.MediaRecorder\<close> the constructor call throws, and the click listener reports it.
\<close>

definition startRecording_granted :: "browser \<Rightarrow> nat \<Rightarrow> client \<Rightarrow> client" where
  "startRecording_granted b stream c =
     (let c1 = c\<lparr>micPending := micPending c - 1, liveStreams := stream # liveStreams c\<rparr>;
          preferredMimeType = getSupportedMimeType b
      in if \<not> hasMediaRecorder b then
           click_catch (JsError (lit ''MediaRecorder is not defined'')) c1
         else
           setStatus (lit ''Listening...'')
             (updateRecordButton
                (c1\<lparr>mediaRecorder :=
                       Some \<lparr>rec_stream = stream, rec_state = Active,
                             rec_mimeType = (if preferredMimeType \<noteq> [] then preferredMimeType
                                             else defaultMimeType b)\<rparr>,
                     audioChunks := [],
                     isRecording := True\<rparr>)))"

text \<open>\<open>startRecording\<close> after \<open>getUserMedia\<close> rejected.\<close>

definition startRecording_denied :: "jsval \<Rightarrow> client \<Rightarrow> client" where
  "startRecording_denied error c =
     click_catch (JsError (formatMicError error)) (c\<lparr>micPending := micPending c - 1\<rparr>)"

text \<open>The \<open>ondataavailable\<close> handler; a chunk is the bytes of \<open>event.data\<close>.\<close>

definition ondataavailable :: "bytes \<Rightarrow> client \<Rightarrow> client" where
  "ondataavailable chunk c =
     (if length chunk > 0 then c\<lparr>audioChunks := audioChunks c @ [chunk]\<rparr> else c)"

text \<open>\<open>stopRecording\<close> up to its \<open>await\<close>; \<open>mediaRecorder.stop()\<close> makes the recorder inactive.\<close>

definition stopRecording_begin :: "client \<Rightarrow> client" where
  "stopRecording_begin c =
     (case mediaRecorder c of
        None \<Rightarrow> c
      | Some r \<Rightarrow>
          if rec_state r = Inactive then c
          else (setStatus (lit ''Finalizing recording...'') c)
                 \<lparr>mediaRecorder := Some (r\<lparr>rec_state := Inactive\<rparr>), stopPending := True\<rparr>)"

text \<open>What \<open>fetch\<close> followed by \<open>response.json()\<close> gives the client.\<close>

record fetch_response =
  resp_ok :: bool
  resp_json :: "js_exn + jsval"

type_synonym fetched = "js_exn + fetch_response"

text \<open>The multipart form both variants of \<open>sendRecording\<close> post.\<close>

record chat_submission =
  sub_audio :: blob
  sub_filename :: jsstring
  sub_chatHistory :: jsstring

text \<open>
  The server as the client sees it: the single endpoint \<open>/api/chat\<close> of app.js, or the
  endpoints \<open>/api/transcribe\<close>, \<open>/api/llm\<close> and \<open>/api/tts\<close> of the staged variant, each a
  function of the request body. \<open>sendRecording\<close> is followed from its call to its end
  with the answers of these functions: what the user does while a request is under way
  is an event before or after it.
\<close>

datatype transport =
    SingleEndpoint "chat_submission \<Rightarrow> fetched"
  | Staged "chat_submission \<Rightarrow> fetched" "jsval \<Rightarrow> fetched" "jsval \<Rightarrow> fetched"

text \<open>
  \<open>const data = await response.json(); if (!response.ok) throw new Error(data.error ||
  "Request failed.")\<close>, after the \<open>fetch\<close> itself settled.
\<close>

definition checked_json :: "browser \<Rightarrow> fetched \<Rightarrow> js_exn + jsval" where
  "checked_json b r =
     (case r of
        Inl e \<Rightarrow> Inl e
      | Inr response \<Rightarrow>
          (case resp_json response of
             Inl e \<Rightarrow> Inl e
           | Inr data \<Rightarrow>
               if \<not> resp_ok response then
                 (if nullish data then Inl (cannot_read data ''error'')
                  else if truthy (get_prop (lit ''error'') data)
                  then Inl (JsError (to_str b (get_prop (lit ''error'') data)))
                  else Inl (JsError (lit ''Request failed.'')))
               else Inr data))"

text \<open>The \<open>catch\<close> block of \<open>sendRecording\<close>.\<close>

definition send_catch :: "js_exn \<Rightarrow> client \<Rightarrow> client" where
  "send_catch error c =
     setStatus (case error of JsError m \<Rightarrow> m | JsNonError \<Rightarrow> lit ''Request failed.'') c"

text \<open>\<open>chatHistory.map(({ role, content }) => ({ role, content }))\<close>\<close>

definition chatHistoryPayload :: "client \<Rightarrow> jsval" where
  "chatHistoryPayload c =
     JArr (map (\<lambda>entry. JObj [(lit ''role'', JStr (entry_role entry)),
                               (lit ''content'', entry_content entry)])
             (chatHistory c))"

definition make_submission :: "browser \<Rightarrow> blob \<Rightarrow> jsstring \<Rightarrow> client \<Rightarrow> chat_submission" where
  "make_submission b audioBlob filename c =
     \<lparr>sub_audio = audioBlob,
      sub_filename = (if filename \<noteq> [] then filename else lit ''recording.webm''),
      sub_chatHistory = stringify b (chatHistoryPayload c)\<rparr>"

text \<open>\<open>sendRecording\<close> of app.js, from the settled request on.\<close>

definition sendRecording_single :: "browser \<Rightarrow> fetched \<Rightarrow> client \<Rightarrow> client" where
  "sendRecording_single b r c =
     (let c1 = setStatus (lit ''Uploading audio...'') c
      in case r of
           Inl e \<Rightarrow> send_catch e c1
         | Inr response \<Rightarrow>
             (let c2 = setStatus (lit ''Transcribing audio and generating reply...'') c1
              in case checked_json b r of
                   Inl e \<Rightarrow> send_catch e c2
                 | Inr data \<Rightarrow>
                     if nullish data then send_catch (cannot_read data ''audioBase64'') c2
                     else
                       (let audioBase64 = get_prop (lit ''audioBase64'') data;
                            transcript = get_prop (lit ''transcript'') data;
                            assistantReply = get_prop (lit ''assistantReply'') data;
                            c3 = (if truthy audioBase64
                                  then setStatus (lit ''Synthesizing speech...'') c2 else c2);
                            c4 = (if truthy transcript
                                  then appendChatMessage (lit ''user'') transcript JNull c3
                                  else c3);
                            c5 = (if truthy assistantReply then
                                    (let c' = appendChatMessage (lit ''assistant'') assistantReply
                                                (if truthy audioBase64 then audioBase64 else JNull)
                                                c4
                                     in if truthy audioBase64 then playLatestAssistantAudio c'
                                        else c')
                                  else c4)
                        in setStatus (lit ''Ready.'') c5)))"

text \<open>\<open>typeof v === "string" ? v : ""\<close>\<close>

definition string_or_empty :: "jsval \<Rightarrow> jsstring" where
  "string_or_empty v = (case v of JStr s \<Rightarrow> s | _ \<Rightarrow> [])"

text \<open>\<open>sendRecording\<close> of the staged variant.\<close>

definition sendRecording_staged ::
  "browser \<Rightarrow> (chat_submission \<Rightarrow> fetched) \<Rightarrow> (jsval \<Rightarrow> fetched) \<Rightarrow> (jsval \<Rightarrow> fetched)
     \<Rightarrow> chat_submission \<Rightarrow> jsval \<Rightarrow> client \<Rightarrow> client" where
  "sendRecording_staged b transcribe_api llm_api tts_api formData payload c =
     (let c1 = setStatus (lit ''Transcribing audio...'') (setStatus (lit ''Uploading audio...'') c)
      in case checked_json b (transcribe_api formData) of
           Inl e \<Rightarrow> send_catch e c1
         | Inr transcribeData \<Rightarrow>
             if nullish transcribeData then
               send_catch (cannot_read transcribeData ''transcript'') c1
             else
               (let transcript = string_or_empty (get_prop (lit ''transcript'') transcribeData)
                in if transcript = [] then
                     send_catch (JsError (lit ''Transcription was empty.'')) c1
                   else
                     (let c2 = setStatus (lit ''Thinking about it...'')
                                 (appendChatMessage (lit ''user'') (JStr transcript) JNull c1)
                      in case checked_json b
                                (llm_api (JObj [(lit ''transcript'', JStr transcript),
                                                (lit ''chatHistory'', payload)])) of
                           Inl e \<Rightarrow> send_catch e c2
                         | Inr llmData \<Rightarrow>
                             if nullish llmData then
                               send_catch (cannot_read llmData ''assistantReply'') c2
                             else
                               (let assistantReply =
                                      string_or_empty (get_prop (lit ''assistantReply'') llmData)
                                in if assistantReply = [] then
                                     send_catch (JsError (lit ''LLM response was empty.'')) c2
                                   else
                                     (let c3 = setStatus (lit ''Finding the words...'') c2
                                      in case checked_json b
                                                (tts_api (JObj [(lit ''text'', JStr assistantReply)])) of
                                           Inl e \<Rightarrow> send_catch e c3
                                         | Inr ttsData \<Rightarrow>
                                             if nullish ttsData then
                                               send_catch (cannot_read ttsData ''audioBase64'') c3
                                             else
                                               (let audioBase64 =
                                                      (case get_prop (lit ''audioBase64'') ttsData of
                                                         JStr a \<Rightarrow> JStr a
                                                       | _ \<Rightarrow> JNull);
                                                    c4 = appendChatMessage (lit ''assistant'')
                                                           (JStr assistantReply) audioBase64 c3;
                                                    c5 = (if truthy audioBase64
                                                          then playLatestAssistantAudio c4 else c4)
                                                in setStatus (lit ''Ready.'') c5))))))"

definition sendRecording :: "browser \<Rightarrow> transport \<Rightarrow> blob \<Rightarrow> jsstring \<Rightarrow> client \<Rightarrow> client" where
  "sendRecording b net audioBlob filename c =
     (let formData = make_submission b audioBlob filename c
      in case net of
           SingleEndpoint chat_api \<Rightarrow> sendRecording_single b (chat_api formData) c
         | Staged transcribe_api llm_api tts_api \<Rightarrow>
             sendRecording_staged b transcribe_api llm_api tts_api formData
               (chatHistoryPayload c) c)"

text \<open>
  The \<open>stop\<close> event of the recorder, which is inactive by then: its \<open>onstop\<close> handler
  stops the tracks of the stream, and a waiting \<open>stopRecording\<close> goes on to build the
  blob and send it.
\<close>

definition stopRecording_stopped :: "browser \<Rightarrow> transport \<Rightarrow> client \<Rightarrow> client" where
  "stopRecording_stopped b net c =
     (case mediaRecorder c of
        None \<Rightarrow> c
      | Some r \<Rightarrow>
          (let c1 = c\<lparr>mediaRecorder := Some (r\<lparr>rec_state := Inactive\<rparr>),
                      liveStreams := removeAll (rec_stream r) (liveStreams c)\<rparr>
           in if \<not> stopPending c then c1
              else
                (let c2 = updateRecordButton (c1\<lparr>stopPending := False, isRecording := False\<rparr>);
                     mimeType = (if rec_mimeType r \<noteq> [] then rec_mimeType r
                                 else lit ''audio/webm'');
                     extension = extensionForMimeType mimeType;
                     audioBlob = new_blob (concat (audioChunks c2)) mimeType
                 in sendRecording b net audioBlob (lit ''recording.'' @ extension) c2)))"

text \<open>The click listener of the record button.\<close>

definition record_click :: "client \<Rightarrow> client" where
  "record_click c = (if isRecording c then stopRecording_begin c else startRecording_begin c)"

text \<open>
  The state after the script has loaded, on a secure origin or not, on a page with or
  without a chat log: the top-level statements of the script, but for the page title,
  which \<open>loadAppConfig\<close> fetches and nothing else reads.
\<close>

definition initial_client :: "bool \<Rightarrow> bool \<Rightarrow> client" where
  "initial_client isSecureOrigin hasChatLog =
     (let c0 = \<lparr>mediaRecorder = None, audioChunks = [], isRecording = False, chatHistory = [],
                statusEl = [], recordButton = [],
                chatLog = (if hasChatLog then Some [] else None),
                micRequests = 0, micPending = 0, liveStreams = [], stopPending = False,
                played = [], recordDisabled = False\<rparr>;
          c1 = (if \<not> isSecureOrigin
                then setStatus (lit ''Microphone access requires HTTPS or localhost.'')
                       (c0\<lparr>recordDisabled := True\<rparr>)
                else c0)
      in renderChat (updateRecordButton c1))"

text \<open>
  Everything that can happen to the client, one event-loop task each. A disabled button
  gets no click.
\<close>

datatype client_event =
    RecordClick
  | ClearClick
  | MicGranted nat
  | MicDenied jsval
  | DataAvailable bytes
  | RecorderStopped

definition client_step :: "browser \<Rightarrow> transport \<Rightarrow> client_event \<Rightarrow> client \<Rightarrow> client" where
  "client_step b net ev c =
     (case ev of
        RecordClick \<Rightarrow> if recordDisabled c then c else record_click c
      | ClearClick \<Rightarrow> clearChat c
      | MicGranted stream \<Rightarrow> if micPending c > 0 then startRecording_granted b stream c else c
      | MicDenied error \<Rightarrow> if micPending c > 0 then startRecording_denied error c else c
      | DataAvailable chunk \<Rightarrow> ondataavailable chunk c
      | RecorderStopped \<Rightarrow> stopRecording_stopped b net c)"

section \<open>Loading the reference voice at start-up (server.js, lines 32 to 42)\<close>

text \<open>
  What the process start reads: the environment variables, \<open>__dirname\<close>, and the
  built-ins \<open>path.resolve\<close>, \<open>fs.readFileSync\<close> (\<open>Inl\<close> when it throws, as for a missing
  file) and the UTF-8 decoding of a buffer.
\<close>

record node =
  process_env :: "jsstring \<rightharpoonup> jsstring"
  dirname :: jsstring
  path_resolve :: "jsstring list \<Rightarrow> jsstring"
  readFileSync :: "jsstring \<Rightarrow> js_exn + bytes"
  utf8 :: "bytes \<Rightarrow> jsstring"

text \<open>\<open>process.env.NAME ? path.resolve(__dirname, process.env.NAME) : path.resolve(__dirname, "..", file)\<close>\<close>

definition reference_path :: "node \<Rightarrow> string \<Rightarrow> string \<Rightarrow> jsstring" where
  "reference_path n name file =
     (case process_env n (lit name) of
        None \<Rightarrow> path_resolve n [dirname n, lit ''..'', lit file]
      | Some p \<Rightarrow>
          if p \<noteq> [] then path_resolve n [dirname n, p]
          else path_resolve n [dirname n, lit ''..'', lit file])"

definition referenceAudioPath :: "node \<Rightarrow> jsstring" where
  "referenceAudioPath n = reference_path n ''REF_AUDIO_PATH'' ''poppy.wav''"

definition referenceTextPath :: "node \<Rightarrow> jsstring" where
  "referenceTextPath n = reference_path n ''REF_TEXT_PATH'' ''poppy.txt''"

text \<open>The module's top-level statements for the reference voice; \<open>Inl\<close> ends the process.\<close>

definition load_reference_voice :: "node \<Rightarrow> js_exn + reference_voice" where
  "load_reference_voice n =
     (case readFileSync n (referenceAudioPath n) of
        Inl e \<Rightarrow> Inl e
      | Inr audio \<Rightarrow>
          (case readFileSync n (referenceTextPath n) of
             Inl e \<Rightarrow> Inl e
           | Inr raw \<Rightarrow>
               (let t = trim (utf8 n raw)
                in if t = [] then Inl (JsError (lit ''Reference text file is empty.''))
                   else Inr \<lparr>referenceAudioBuffer = audio, referenceText = t\<rparr>)))"

section \<open>The client and the server joined\<close>

text \<open>
  \<open>fetch("/api/chat", { method: "POST", body: formData })\<close> against the handler above.
  The browser sends a blob without a type as \<open>application/octet-stream\<close>; multer gives
  \<open>req.file.mimetype\<close> the type and subtype of the part and drops its parameters (here:
  what precedes the first semicolon or blank, for a type of the form the recorder
  reports), and turns the \<open>chatHistory\<close> part into a string field. With
  \<open>limits: { fileSize: 30 * 1024 * 1024 }\<close> it refuses a larger file, and the handler is
  not called: \<open>request_of\<close> is \<open>None\<close> then.
\<close>

definition fileSize :: int where
  "fileSize = 30 * 1024 * 1024"

definition part_mimetype :: "jsstring \<Rightarrow> jsstring" where
  "part_mimetype t =
     (if t = [] then lit ''application/octet-stream''
      else takeWhile (\<lambda>c. c \<noteq> 0x3B \<and> c \<noteq> 0x20 \<and> c \<noteq> 0x9) t)"

definition request_of :: "chat_submission \<Rightarrow> chat_request option" where
  "request_of formData =
     (if int (length (blob_data (sub_audio formData))) > fileSize then None
      else Some (Multipart
                   (Some \<lparr>buffer = blob_data (sub_audio formData),
                          originalname = sub_filename formData,
                          mimetype = part_mimetype (blob_type (sub_audio formData))\<rparr>)
                   (JStr (sub_chatHistory formData))))"

text \<open>
  For a refused upload the error page of Express (status 500, HTML) makes
  \<open>response.json()\<close> throw in the client, with the message of Chrome here.
\<close>

definition upload_refused :: fetched where
  \<open>upload_refused =
     Inr \<lparr>resp_ok = False,
          resp_json =
            Inl (JsError (lit ''Unexpected token '' @ [0x27] @ lit ''<'' @ [0x27]
                          @ lit '', "<!DOCTYPE "... is not valid JSON''))\<rparr>\<close>

text \<open>\<open>response.json()\<close> gives back the value \<open>res.json\<close> was called with.\<close>

definition deliver :: "http_reply \<Rightarrow> fetched" where
  "deliver reply =
     Inr \<lparr>resp_ok = (200 \<le> reply_status reply \<and> reply_status reply \<le> 299),
          resp_json = Inr (reply_json reply)\<rparr>"

definition chat_endpoint :: "config \<Rightarrow> services \<Rightarrow> reference_voice \<Rightarrow> transport" where
  "chat_endpoint cfg sv ref =
     SingleEndpoint
       (\<lambda>formData.
          case request_of formData of
            None \<Rightarrow> upload_refused
          | Some req \<Rightarrow> deliver (fst (chat_handler cfg sv ref req)))"

section \<open>The properties of the specification, in its own words\<close>

text \<open>
  A valid history entry: an object whose \<open>role\<close> is \<open>user\<close> or \<open>assistant\<close> and whose
  \<open>content\<close> is a string that is not blank.
\<close>

definition spec_valid_entry :: "jsval \<Rightarrow> bool" where
  "spec_valid_entry e =
     (case e of
        JObj kvs \<Rightarrow>
          (map_of kvs (lit ''role'') = Some (JStr (lit ''user''))
           \<or> map_of kvs (lit ''role'') = Some (JStr (lit ''assistant'')))
          \<and> (case map_of kvs (lit ''content'') of
                Some (JStr s) \<Rightarrow> trim s \<noteq> []
              | _ \<Rightarrow> False)
      | _ \<Rightarrow> False)"

text \<open>The turn a valid entry stands for: its role, and its content trimmed.\<close>

definition spec_turn_of :: "jsval \<Rightarrow> chat_message" where
  "spec_turn_of e =
     \<lparr>role = (case get_prop (lit ''role'') e of JStr r \<Rightarrow> r | _ \<Rightarrow> []),
      content = (case get_prop (lit ''content'') e of JStr s \<Rightarrow> trim s | _ \<Rightarrow> [])\<rparr>"

text \<open>The messages of a list that are sent with the role \<open>user\<close>.\<close>

definition user_messages :: "chat_message list \<Rightarrow> chat_message list" where
  "user_messages ms = filter (\<lambda>m. role m = lit ''user'') ms"

text \<open>
  The four states of the recorder in the specification, read off the client: finalizing
  while \<open>stopRecording\<close> waits for the encoder, recording while the flag is set,
  requesting while a call of \<open>getUserMedia\<close> is unsettled, idle otherwise.
\<close>

datatype recorder_phase = Idle | Requesting | Recording | Finalizing

definition spec_phase :: "client \<Rightarrow> recorder_phase" where
  "spec_phase c =
     (if stopPending c then Finalizing
      else if isRecording c then Recording
      else if micPending c > 0 then Requesting
      else Idle)"

text \<open>Every stored turn has truthy content.\<close>

definition history_ok :: "client \<Rightarrow> bool" where
  "history_ok c = list_all (\<lambda>entry. truthy (entry_content entry)) (chatHistory c)"

text \<open>
  The history of \<open>c'\<close> is that of \<open>c\<close> followed by turns with truthy content.
\<close>

definition only_appends :: "client \<Rightarrow> client \<Rightarrow> bool" where
  "only_appends c c' =
     (take (length (chatHistory c)) (chatHistory c') = chatHistory c
      \<and> list_all (\<lambda>entry. truthy (entry_content entry))
            (drop (length (chatHistory c)) (chatHistory c')))"

text \<open>The two flags of the recorder are in \<open>c'\<close> what they are in \<open>c\<close>.\<close>

definition same_flags :: "client \<Rightarrow> client \<Rightarrow> bool" where
  "same_flags c c' = (isRecording c' = isRecording c \<and> stopPending c' = stopPending c)"

section \<open>Stubbed collaborators for the examples\<close>

text \<open>
  A completion whose first choice carries the given content, and services that answer
  every request the same way: the transcription service with the given status and body,
  the completion service with the given completion, the synthesis service with status
  200 and the given body. \<open>JSON.parse\<close> and the base64 encoding are given on the inputs
  the examples use.
\<close>

definition completion_with :: "jsval \<Rightarrow> jsval" where
  "completion_with c =
     JObj [(lit ''choices'',
            JArr [JObj [(lit ''message'',
                         JObj [(lit ''role'', JStr (lit ''assistant'')),
                               (lit ''content'', c)])]])]"

definition example_parse :: "jsstring \<Rightarrow> js_exn + jsval" where
  \<open>example_parse s =
     (if s = lit ''{"audio_base64":"UklGRg=="}''
      then Inr (JObj [(lit ''audio_base64'', JStr (lit ''UklGRg==''))])
      else if s = lit ''[{"role":"user","content":" hi "},5,null,{"role":"assistant","content":"  "}]''
      then Inr (JArr [JObj [(lit ''role'', JStr (lit ''user'')), (lit ''content'', JStr (lit '' hi ''))],
                      JNum 5, JNull,
                      JObj [(lit ''role'', JStr (lit ''assistant'')),
                            (lit ''content'', JStr (lit ''  ''))]])
      else if s = lit ''[]'' then Inr (JArr [])
      else if s = lit ''{"a":1}'' then Inr (JObj [(lit ''a'', JNum 1)])
      else Inl (JsError (lit ''Unexpected token'')))\<close>

definition example_base64 :: "bytes \<Rightarrow> jsstring" where
  "example_base64 bs = (if bs = [0x52, 0x49, 0x46, 0x46] then lit ''UklGRg=='' else [])"

definition stub_services :: "nat \<Rightarrow> jsstring \<Rightarrow> jsval \<Rightarrow> jsstring \<Rightarrow> services" where
  "stub_services whisper_status heard completion spoken =
     \<lparr>whisper = (\<lambda>url form. Inr \<lparr>status = whisper_status, text_body = Inr heard\<rparr>),
      llm = (\<lambda>request. Inr completion),
      tts = (\<lambda>url payload. Inr \<lparr>status = 200, text_body = Inr spoken\<rparr>),
      json_parse = example_parse,
      base64 = example_base64\<rparr>"

definition example_voice :: reference_voice where
  "example_voice = \<lparr>referenceAudioBuffer = [0x52, 0x49, 0x46, 0x46], referenceText = lit ''Hi.''\<rparr>"

definition example_upload :: upload where
  "example_upload =
     \<lparr>buffer = [0x1A, 0x45], originalname = lit ''recording.webm'', mimetype = lit ''audio/webm''\<rparr>"

text \<open>
  A browser with a recorder that picks WebM; \<open>JSON.stringify\<close> is given on the empty
  array, the only history the examples send, and \<open>String\<close> is not called in them.
\<close>

definition example_browser :: browser where
  "example_browser =
     \<lparr>hasMediaRecorder = True, isTypeSupported = None, defaultMimeType = lit ''audio/webm'',
      to_string = (\<lambda>v. []),
      stringify = (\<lambda>v. if v = JArr [] then lit ''[]'' else [])\<rparr>"

text \<open>
  A process whose two default reference files hold the given bytes (\<open>None\<close>: no such
  file), with ASCII text.
\<close>

definition example_node :: "bytes option \<Rightarrow> bytes option \<Rightarrow> node" where
  "example_node wav txt =
     \<lparr>process_env = Map.empty,
      dirname = lit ''/app/nodejs'',
      path_resolve = (\<lambda>parts. lit ''/app/'' @ last parts),
      readFileSync =
        (\<lambda>p. case (if p = lit ''/app/poppy.wav'' then wav
                    else if p = lit ''/app/poppy.txt'' then txt else None) of
                None \<Rightarrow> Inl (JsError (lit ''ENOENT: no such file or directory''))
              | Some bs \<Rightarrow> Inr bs),
      utf8 = map ucast\<rparr>"

text \<open>
  The configuration of a process started with no environment variable set, and of one
  started with only \<open>LLM_POSTPROMPT\<close> set.
\<close>

definition default_config :: config where
  "default_config = load_config Map.empty"

definition postscript_config :: config where
  "postscript_config = load_config [lit ''LLM_POSTPROMPT'' \<mapsto> lit ''Be brief.'']"

definition example_tts_body :: jsstring where
  \<open>example_tts_body = lit ''{"audio_base64":"UklGRg=="}''\<close>

definition example_history_text :: jsstring where
  \<open>example_history_text =
     lit ''[{"role":"user","content":" hi "},5,null,{"role":"assistant","content":"  "}]''\<close>

definition example_history :: "jsval list" where
  "example_history =
     [JObj [(lit ''role'', JStr (lit ''user'')), (lit ''content'', JStr (lit '' hi ''))],
      JNum 5, JNull,
      JObj [(lit ''role'', JStr (lit ''assistant'')), (lit ''content'', JStr (lit ''  ''))]]"

definition example_object_text :: jsstring where
  \<open>example_object_text = lit ''{"a":1}''\<close>

text \<open>The stubbed pipeline of the round-trip property: "hello", "hi there", and an audio value.\<close>

definition happy_services :: services where
  "happy_services =
     stub_services 200 (lit ''hello'') (completion_with (JStr (lit ''hi there''))) example_tts_body"

definition example_request :: chat_request where
  "example_request = Multipart (Some example_upload) (JStr (lit ''[]''))"

text \<open>
  Two failing pipelines: a transcription service that answers with status 500, and a
  completion service whose reply is blank.
\<close>

definition whisper_down :: services where
  "whisper_down = stub_services 500 (lit ''model not loaded'') JNull []"

definition blank_reply_services :: services where
  "blank_reply_services =
     stub_services 200 (lit ''hello'') (completion_with (JStr (lit ''  ''))) example_tts_body"

text \<open>A pipeline whose completion service answers with the JSON body \<open>null\<close>.\<close>

definition null_body_services :: services where
  "null_body_services = stub_services 200 (lit ''hello'') JNull example_tts_body"

text \<open>The messages of V8 for the two property reads that fail in the examples.\<close>

definition cannot_read_choices :: jsstring where
  \<open>cannot_read_choices = lit ''Cannot read properties of null (reading 'choices')''\<close>

definition cannot_read_chatHistory :: jsstring where
  \<open>cannot_read_chatHistory =
     lit ''Cannot read properties of undefined (reading 'chatHistory')''\<close>

text \<open>A pipeline whose transcription service hears nothing but white space.\<close>

definition silent_services :: services where
  "silent_services =
     stub_services 200 (lit ''  '') (completion_with (JStr (lit ''hi there''))) example_tts_body"

definition example_blob :: blob where
  "example_blob = new_blob [0x1A, 0x45] (lit ''audio/webm'')"

text \<open>The client after a list of events, oldest first.\<close>

definition run_events :: "browser \<Rightarrow> transport \<Rightarrow> client_event list \<Rightarrow> client \<Rightarrow> client" where
  "run_events b net evs c = foldl (\<lambda>c' ev. client_step b net ev c') c evs"

section \<open>Trimming\<close>

lemma dropWhile_fixed: "xs = [] \<or> \<not> P (hd xs) \<Longrightarrow> dropWhile P xs = xs"
  by (cases xs) auto

lemma trim_idem: "trim (trim s) = trim s"
proof -
  define a where "a = dropWhile is_ws s"
  define b where "b = dropWhile is_ws (rev a)"
  have t: "trim s = rev b" by (simp add: trim_def a_def b_def)
  have a0: "a = [] \<or> \<not> is_ws (hd a)" unfolding a_def by (metis hd_dropWhile)
  have b0: "b = [] \<or> \<not> is_ws (hd b)" unfolding b_def by (metis hd_dropWhile)
  have "rev a = takeWhile is_ws (rev a) @ b" by (simp add: b_def)
  then have ab: "a = rev b @ rev (takeWhile is_ws (rev a))"
    by (metis rev_append rev_rev_ident)
  have "rev b = [] \<or> \<not> is_ws (hd (rev b))"
  proof (cases "b = []")
    case True then show ?thesis by simp
  next
    case False
    then have "hd (rev b) = hd a" using ab by (metis hd_append2 rev_is_Nil_conv)
    moreover have "a \<noteq> []" using ab False by auto
    ultimately show ?thesis using a0 by simp
  qed
  then have 1: "dropWhile is_ws (rev b) = rev b" by (rule dropWhile_fixed)
  have 2: "dropWhile is_ws b = b" using b0 by (rule dropWhile_fixed)
  show ?thesis unfolding t by (simp add: trim_def 1 2)
qed

section \<open>History normalization\<close>

lemma user_neq_assistant: "lit ''user'' \<noteq> lit ''assistant''"
  by (simp add: lit_def)

lemma normalize_entry_spec:
  "normalize_entry e = (if spec_valid_entry e then Some (spec_turn_of e) else None)"
  by (cases e)
     (auto simp: normalize_entry_def spec_valid_entry_def spec_turn_of_def Let_def
        user_neq_assistant split: option.splits jsval.splits)

lemma spec_valid_is_object: "spec_valid_entry e \<Longrightarrow> truthy e \<and> typeof e = ''object''"
  by (cases e) (auto simp: spec_valid_entry_def)

lemma map_filter_entries:
  "List.map_filter normalize_entry (filter (\<lambda>entry. truthy entry \<and> typeof entry = ''object'') xs)
     = map spec_turn_of (filter spec_valid_entry xs)"
proof (induction xs)
  case Nil
  then show ?case by (simp add: List.map_filter_simps)
next
  case (Cons x xs)
  then show ?case
    using spec_valid_is_object [of x]
    by (auto simp: List.map_filter_simps normalize_entry_spec)
qed

lemma normalizeChatHistory_array:
  "normalizeChatHistory parse (JArr xs) = map spec_turn_of (filter spec_valid_entry xs)"
  by (simp add: normalizeChatHistory_def map_filter_entries)

lemma spec_turn_of_valid:
  assumes "spec_valid_entry e"
  shows "(role (spec_turn_of e) = lit ''user'' \<or> role (spec_turn_of e) = lit ''assistant'')
         \<and> trim (content (spec_turn_of e)) = content (spec_turn_of e)
         \<and> content (spec_turn_of e) \<noteq> []"
  using assms
  by (cases e)
     (auto simp: spec_valid_entry_def spec_turn_of_def trim_idem split: option.splits jsval.splits)

text \<open>
  C2. For every array, \<open>normalizeChatHistory\<close> returns the turns of exactly its valid
  entries (objects whose role is \<open>user\<close> or \<open>assistant\<close> and whose content is a string that
  is not blank), in their original order; every returned turn has one of the two roles
  and a content that is trimmed and not empty; and the same holds when the array comes
  as the JSON text of the \<open>chatHistory\<close> field.
\<close>

theorem normalizeChatHistory_keeps_valid_entries:
  "normalizeChatHistory parse (JArr xs) = map spec_turn_of (filter spec_valid_entry xs)
   \<and> (\<forall>m \<in> set (normalizeChatHistory parse (JArr xs)).
         (role m = lit ''user'' \<or> role m = lit ''assistant'')
         \<and> trim (content m) = content m \<and> content m \<noteq> [])
   \<and> (s \<noteq> [] \<and> parse s = Inr (JArr xs) \<longrightarrow>
         normalizeChatHistory parse (JStr s) = normalizeChatHistory parse (JArr xs))"
proof (intro conjI)
  show "normalizeChatHistory parse (JArr xs) = map spec_turn_of (filter spec_valid_entry xs)"
    by (rule normalizeChatHistory_array)
  show "\<forall>m \<in> set (normalizeChatHistory parse (JArr xs)).
         (role m = lit ''user'' \<or> role m = lit ''assistant'')
         \<and> trim (content m) = content m \<and> content m \<noteq> []"
    unfolding normalizeChatHistory_array using spec_turn_of_valid by auto
  show "s \<noteq> [] \<and> parse s = Inr (JArr xs) \<longrightarrow>
         normalizeChatHistory parse (JStr s) = normalizeChatHistory parse (JArr xs)"
    by (simp add: normalizeChatHistory_def)
qed

theorem normalizeChatHistory_keeps_valid_entries_witness:
  "example_history_text \<noteq> []
   \<and> example_parse example_history_text = Inr (JArr example_history)
   \<and> filter spec_valid_entry example_history
       = [JObj [(lit ''role'', JStr (lit ''user'')), (lit ''content'', JStr (lit '' hi ''))]]
   \<and> normalizeChatHistory example_parse (JArr example_history)
       = [\<lparr>role = lit ''user'', content = lit ''hi''\<rparr>]
   \<and> normalizeChatHistory example_parse (JStr example_history_text)
       = [\<lparr>role = lit ''user'', content = lit ''hi''\<rparr>]"
proof -
  have a: "example_history_text \<noteq> []" by code_simp
  have b: "example_parse example_history_text = Inr (JArr example_history)" by code_simp
  have c: "filter spec_valid_entry example_history
       = [JObj [(lit ''role'', JStr (lit ''user'')), (lit ''content'', JStr (lit '' hi ''))]]"
    by code_simp
  have d: "spec_turn_of (JObj [(lit ''role'', JStr (lit ''user'')),
                               (lit ''content'', JStr (lit '' hi ''))])
             = \<lparr>role = lit ''user'', content = lit ''hi''\<rparr>"
    by code_simp
  show ?thesis
    using normalizeChatHistory_keeps_valid_entries
            [of example_parse example_history example_history_text] a b
    by (simp add: c d)
qed

lemma normalizeChatHistory_undefined: "normalizeChatHistory parse JUndefined = []"
  by (simp add: normalizeChatHistory_def)

lemma req_chatHistory_Multipart: "req_chatHistory (Multipart audio field) = field"
  by (simp add: req_chatHistory_def)

lemma file_has_body: "req_file req = Some f \<Longrightarrow> \<not> nullish (req_body req)"
  by (cases req) simp_all

text \<open>
  C9. \<open>normalizeChatHistory\<close> has no failing path: it returns the empty history for a
  missing or null payload, for a string that \<open>JSON.parse\<close> rejects, for a string that
  parses to something other than an array, and for any other payload that is neither a
  string nor an array. A turn whose \<open>chatHistory\<close> field normalizes to nothing is handled
  exactly as a turn without the field.
\<close>

theorem normalizeChatHistory_malformed_payload:
  "normalizeChatHistory parse JUndefined = []
   \<and> normalizeChatHistory parse JNull = []
   \<and> (parse s = Inl err \<longrightarrow> normalizeChatHistory parse (JStr s) = [])
   \<and> (parse s' = Inr v \<and> (\<forall>xs. v \<noteq> JArr xs) \<longrightarrow> normalizeChatHistory parse (JStr s') = [])
   \<and> ((\<forall>t. raw \<noteq> JStr t) \<and> (\<forall>xs. raw \<noteq> JArr xs) \<longrightarrow> normalizeChatHistory parse raw = [])
   \<and> (normalizeChatHistory (json_parse sv) field = [] \<longrightarrow>
        chat_handler cfg sv ref (Multipart audio field)
          = chat_handler cfg sv ref (Multipart audio JUndefined))"
proof (intro conjI impI)
  show "normalizeChatHistory parse JUndefined = []" by (simp add: normalizeChatHistory_def)
  show "normalizeChatHistory parse JNull = []" by (simp add: normalizeChatHistory_def)
  show "normalizeChatHistory parse (JStr s) = []" if "parse s = Inl err"
    using that by (simp add: normalizeChatHistory_def)
  show "normalizeChatHistory parse (JStr s') = []" if "parse s' = Inr v \<and> (\<forall>xs. v \<noteq> JArr xs)"
    using that by (cases v) (auto simp: normalizeChatHistory_def)
  show "normalizeChatHistory parse raw = []" if "(\<forall>t. raw \<noteq> JStr t) \<and> (\<forall>xs. raw \<noteq> JArr xs)"
    using that by (cases raw) (auto simp: normalizeChatHistory_def)
  show "chat_handler cfg sv ref (Multipart audio field)
          = chat_handler cfg sv ref (Multipart audio JUndefined)"
    if "normalizeChatHistory (json_parse sv) field = []"
    using that normalizeChatHistory_undefined [of "json_parse sv"]
    by (simp add: chat_handler_def req_chatHistory_Multipart)
qed

theorem normalizeChatHistory_malformed_payload_witness:
  "example_parse (lit ''not json'') = Inl (JsError (lit ''Unexpected token''))
   \<and> normalizeChatHistory example_parse (JStr (lit ''not json'')) = []
   \<and> example_parse example_object_text = Inr (JObj [(lit ''a'', JNum 1)])
   \<and> normalizeChatHistory example_parse (JStr example_object_text) = []
   \<and> normalizeChatHistory example_parse (JNum 7) = []
   \<and> chat_handler default_config happy_services example_voice
        (Multipart (Some example_upload) (JStr (lit ''not json'')))
      = chat_handler default_config happy_services example_voice
          (Multipart (Some example_upload) JUndefined)"
proof -
  have a: "example_parse (lit ''not json'') = Inl (JsError (lit ''Unexpected token''))"
    by code_simp
  have b: "example_parse example_object_text = Inr (JObj [(lit ''a'', JNum 1)])"
    by code_simp
  have c: "json_parse happy_services = example_parse"
    by (simp add: happy_services_def stub_services_def)
  show ?thesis
    using normalizeChatHistory_malformed_payload
            [where parse = example_parse and s = "lit ''not json''"
               and err = "JsError (lit ''Unexpected token'')"
               and s' = example_object_text and v = "JObj [(lit ''a'', JNum 1)]"
               and raw = "JNum 7" and sv = happy_services
               and field = "JStr (lit ''not json'')" and audio = "Some example_upload"
               and cfg = default_config and ref = example_voice]
          a b
    by (simp add: c)
qed

section \<open>The adapters and the turn endpoint\<close>

lemma transcribeAudio_sent:
  "snd (transcribeAudio cfg sv a fn mt tr)
     = [WhisperFetch (whisperUrl cfg) (whisper_form_of a fn mt tr)]"
  by (simp add: transcribeAudio_def Let_def split: sum.splits jsval.splits)

lemma generateAssistantReply_sent:
  "snd (generateAssistantReply cfg sv t h) = [LlmCreate (completion_request cfg t h)]"
  by (simp add: generateAssistantReply_def Let_def split: sum.splits option.splits)

lemma synthesizeSpeech_sent:
  "snd (synthesizeSpeech cfg sv t a rt l) = [TtsFetch (clone_url cfg) (clone_payload sv t a rt l)]"
  by (simp add: synthesizeSpeech_def Let_def split: sum.splits)

lemma generateAssistantReply_nonempty:
  "fst (generateAssistantReply cfg sv t h) \<noteq> Inr []"
  by (simp add: generateAssistantReply_def Let_def split: sum.splits option.splits)

lemma handler_no_body:
  "chat_handler cfg sv ref NotMultipart
     = handler_catch (cannot_read JUndefined ''chatHistory'') []"
  by (simp add: chat_handler_def Let_def)

lemma handler_no_file:
  "chat_handler cfg sv ref (Multipart None field) =
     (\<lparr>reply_status = 400,
       reply_json = JObj [(lit ''error'', JStr (lit ''Missing recorded audio.''))]\<rparr>, [])"
  by (simp add: chat_handler_def Let_def)

lemma handler_transcription_fails:
  assumes "req_file req = Some f"
    and "transcribeAudio cfg sv (buffer f) (originalname f) (mimetype f) (whisperTranslate cfg)
           = (Inl e, fx1)"
  shows "chat_handler cfg sv ref req = handler_catch e fx1"
  using assms file_has_body [OF assms(1)] by (simp add: chat_handler_def Let_def)

lemma handler_completion_fails:
  assumes "req_file req = Some f"
    and "transcribeAudio cfg sv (buffer f) (originalname f) (mimetype f) (whisperTranslate cfg)
           = (Inr t, fx1)"
    and "generateAssistantReply cfg sv t (normalizeChatHistory (json_parse sv) (req_chatHistory req))
           = (Inl e, fx2)"
  shows "chat_handler cfg sv ref req = handler_catch e (fx1 @ fx2)"
  using assms file_has_body [OF assms(1)] by (simp add: chat_handler_def Let_def)

lemma handler_synthesis_fails:
  assumes "req_file req = Some f"
    and "transcribeAudio cfg sv (buffer f) (originalname f) (mimetype f) (whisperTranslate cfg)
           = (Inr t, fx1)"
    and "generateAssistantReply cfg sv t (normalizeChatHistory (json_parse sv) (req_chatHistory req))
           = (Inr r, fx2)"
    and "synthesizeSpeech cfg sv r (referenceAudioBuffer ref) (referenceText ref) (synLang cfg)
           = (Inl e, fx3)"
  shows "chat_handler cfg sv ref req = handler_catch e (fx1 @ fx2 @ fx3)"
  using assms file_has_body [OF assms(1)] by (simp add: chat_handler_def Let_def)

lemma handler_success:
  assumes "req_file req = Some f"
    and "transcribeAudio cfg sv (buffer f) (originalname f) (mimetype f) (whisperTranslate cfg)
           = (Inr t, fx1)"
    and "generateAssistantReply cfg sv t (normalizeChatHistory (json_parse sv) (req_chatHistory req))
           = (Inr r, fx2)"
    and "synthesizeSpeech cfg sv r (referenceAudioBuffer ref) (referenceText ref) (synLang cfg)
           = (Inr a, fx3)"
  shows "chat_handler cfg sv ref req =
           (\<lparr>reply_status = 200,
             reply_json = JObj [(lit ''transcript'', JStr t), (lit ''assistantReply'', JStr r),
                                (lit ''audioBase64'', a)]\<rparr>,
            fx1 @ fx2 @ fx3)"
  using assms file_has_body [OF assms(1)] by (simp add: chat_handler_def Let_def)

lemma cannot_read_chatHistory_eq:
  "cannot_read JUndefined ''chatHistory'' = JsError cannot_read_chatHistory"
  by code_simp

text \<open>
  C5 fails on the code for a submission that is not multipart. With a multipart body and
  no \<open>audio\<close> part the answer is status 400 with "Missing recorded audio."
  (\<open>handler_no_file\<close>). But \<open>req.body.chatHistory\<close> is read before the file is looked at:
  for a request without audio that multer leaves untouched the read throws, and the
  answer is status 500 with the message of that \<open>TypeError\<close>, not the missing-audio
  error. No service is contacted in either case.
\<close>

theorem submission_without_body_is_type_error:
  "req_file NotMultipart = None
   \<and> chat_handler cfg sv ref NotMultipart
       = (\<lparr>reply_status = 500,
            reply_json = JObj [(lit ''error'', JStr cannot_read_chatHistory)]\<rparr>,
          [ConsoleError (JsError cannot_read_chatHistory)])
   \<and> fst (chat_handler cfg sv ref NotMultipart)
       \<noteq> \<lparr>reply_status = 400,
            reply_json = JObj [(lit ''error'', JStr (lit ''Missing recorded audio.''))]\<rparr>"
  by (simp add: handler_no_body cannot_read_chatHistory_eq handler_catch_def error_message_def)

text \<open>
  C4. When transcription fails, the turn is answered with status 500 and the message of
  that failure, and the only things done are the transcription request and the log
  line: neither the completion service nor the synthesis service is called. When
  transcription succeeds and the completion stage fails, the answer carries the
  completion failure's message, and the synthesis service is not called.
\<close>

theorem first_failure_aborts_turn:
  assumes "req_file req = Some f"
  shows
    "(fst (transcribeAudio cfg sv (buffer f) (originalname f) (mimetype f) (whisperTranslate cfg))
        = Inl e \<longrightarrow>
      chat_handler cfg sv ref req =
        (\<lparr>reply_status = 500, reply_json = JObj [(lit ''error'', JStr (error_message e))]\<rparr>,
         [WhisperFetch (whisperUrl cfg)
            (whisper_form_of (buffer f) (originalname f) (mimetype f) (whisperTranslate cfg)),
          ConsoleError e]))
     \<and> (fst (transcribeAudio cfg sv (buffer f) (originalname f) (mimetype f) (whisperTranslate cfg))
          = Inr t
        \<and> fst (generateAssistantReply cfg sv t
                 (normalizeChatHistory (json_parse sv) (req_chatHistory req))) = Inl e' \<longrightarrow>
      chat_handler cfg sv ref req =
        (\<lparr>reply_status = 500, reply_json = JObj [(lit ''error'', JStr (error_message e'))]\<rparr>,
         [WhisperFetch (whisperUrl cfg)
            (whisper_form_of (buffer f) (originalname f) (mimetype f) (whisperTranslate cfg)),
          LlmCreate (completion_request cfg t
                       (normalizeChatHistory (json_parse sv) (req_chatHistory req))),
          ConsoleError e']))"
proof (intro conjI impI)
  let ?T = "transcribeAudio cfg sv (buffer f) (originalname f) (mimetype f) (whisperTranslate cfg)"
  let ?form = "whisper_form_of (buffer f) (originalname f) (mimetype f) (whisperTranslate cfg)"
  let ?h = "normalizeChatHistory (json_parse sv) (req_chatHistory req)"
  {
    assume "fst ?T = Inl e"
    then have "?T = (Inl e, [WhisperFetch (whisperUrl cfg) ?form])"
      by (simp add: prod_eq_iff transcribeAudio_sent)
    with assms have "chat_handler cfg sv ref req
                       = handler_catch e [WhisperFetch (whisperUrl cfg) ?form]"
      by (rule handler_transcription_fails)
    then show "chat_handler cfg sv ref req =
        (\<lparr>reply_status = 500, reply_json = JObj [(lit ''error'', JStr (error_message e))]\<rparr>,
         [WhisperFetch (whisperUrl cfg) ?form, ConsoleError e])"
      by (simp add: handler_catch_def)
  }
  {
    assume "fst ?T = Inr t \<and> fst (generateAssistantReply cfg sv t ?h) = Inl e'"
    then have T: "?T = (Inr t, [WhisperFetch (whisperUrl cfg) ?form])"
      and G: "generateAssistantReply cfg sv t ?h = (Inl e', [LlmCreate (completion_request cfg t ?h)])"
      by (simp_all add: prod_eq_iff transcribeAudio_sent generateAssistantReply_sent)
    have "chat_handler cfg sv ref req
            = handler_catch e' ([WhisperFetch (whisperUrl cfg) ?form]
                               @ [LlmCreate (completion_request cfg t ?h)])"
      using assms T G by (rule handler_completion_fails)
    then show "chat_handler cfg sv ref req =
        (\<lparr>reply_status = 500, reply_json = JObj [(lit ''error'', JStr (error_message e'))]\<rparr>,
         [WhisperFetch (whisperUrl cfg) ?form, LlmCreate (completion_request cfg t ?h),
          ConsoleError e'])"
      by (simp add: handler_catch_def)
  }
qed

theorem first_failure_aborts_turn_witness:
  "req_file example_request = Some example_upload
   \<and> fst (transcribeAudio default_config whisper_down (buffer example_upload)
             (originalname example_upload) (mimetype example_upload)
             (whisperTranslate default_config))
       = Inl (JsError (lit ''Whisper server error: 500 model not loaded''))
   \<and> chat_handler default_config whisper_down example_voice example_request
       = (\<lparr>reply_status = 500,
            reply_json = JObj [(lit ''error'',
                                JStr (lit ''Whisper server error: 500 model not loaded''))]\<rparr>,
          [WhisperFetch (whisperUrl default_config)
             (whisper_form_of (buffer example_upload) (originalname example_upload)
                (mimetype example_upload) (whisperTranslate default_config)),
           ConsoleError (JsError (lit ''Whisper server error: 500 model not loaded''))])
   \<and> fst (transcribeAudio default_config blank_reply_services (buffer example_upload)
             (originalname example_upload) (mimetype example_upload)
             (whisperTranslate default_config))
       = Inr (lit ''hello'')
   \<and> fst (generateAssistantReply default_config blank_reply_services (lit ''hello'')
             (normalizeChatHistory (json_parse blank_reply_services)
                (req_chatHistory example_request)))
       = Inl (JsError (lit ''LLM response was empty.''))
   \<and> chat_handler default_config blank_reply_services example_voice example_request
       = (\<lparr>reply_status = 500,
            reply_json = JObj [(lit ''error'', JStr (lit ''LLM response was empty.''))]\<rparr>,
          [WhisperFetch (whisperUrl default_config)
             (whisper_form_of (buffer example_upload) (originalname example_upload)
                (mimetype example_upload) (whisperTranslate default_config)),
           LlmCreate (completion_request default_config (lit ''hello'')
                        (normalizeChatHistory (json_parse blank_reply_services)
                           (req_chatHistory example_request))),
           ConsoleError (JsError (lit ''LLM response was empty.''))])"
proof -
  have a: "req_file example_request = Some example_upload"
    by (simp add: example_request_def)
  have b: "fst (transcribeAudio default_config whisper_down (buffer example_upload)
             (originalname example_upload) (mimetype example_upload)
             (whisperTranslate default_config))
       = Inl (JsError (lit ''Whisper server error: 500 model not loaded''))"
    by code_simp
  have c: "fst (transcribeAudio default_config blank_reply_services (buffer example_upload)
             (originalname example_upload) (mimetype example_upload)
             (whisperTranslate default_config))
       = Inr (lit ''hello'')"
    by code_simp
  have d: "fst (generateAssistantReply default_config blank_reply_services (lit ''hello'')
             (normalizeChatHistory (json_parse blank_reply_services)
                (req_chatHistory example_request)))
       = Inl (JsError (lit ''LLM response was empty.''))"
    by code_simp
  show ?thesis
    using first_failure_aborts_turn
            [OF a, where cfg = default_config and sv = whisper_down and ref = example_voice
               and e = "JsError (lit ''Whisper server error: 500 model not loaded'')"]
          first_failure_aborts_turn
            [OF a, where cfg = default_config and sv = blank_reply_services
               and ref = example_voice and t = "lit ''hello''"
               and e' = "JsError (lit ''LLM response was empty.'')"]
          a b c d
    by (simp add: error_message_def)
qed

text \<open>
  C6 (amended). The message list is, in this order: the system instruction, the preamble
  as a \<open>user\<close> message, the prior history in its order, the transcript as a \<open>user\<close>
  message, and, only when a postscript is configured, the postscript, itself a \<open>user\<close>
  message. So the transcript is the last message when no postscript is configured, and
  the one before the last otherwise. This list is what the completion service is sent.
\<close>

theorem build_messages_order:
  "build_messages cfg transcript history =
     \<lparr>role = lit ''system'', content = llmSystem cfg\<rparr>
     # \<lparr>role = lit ''user'', content = llmPreprompt cfg\<rparr>
     # history
     @ \<lparr>role = lit ''user'', content = transcript\<rparr>
     # (if llmPostprompt cfg = [] then []
        else [\<lparr>role = lit ''user'', content = llmPostprompt cfg\<rparr>])
   \<and> (llmPostprompt cfg = [] \<longrightarrow>
        last (build_messages cfg transcript history) = \<lparr>role = lit ''user'', content = transcript\<rparr>)
   \<and> (llmPostprompt cfg \<noteq> [] \<longrightarrow>
        last (build_messages cfg transcript history)
          = \<lparr>role = lit ''user'', content = llmPostprompt cfg\<rparr>
        \<and> last (butlast (build_messages cfg transcript history))
          = \<lparr>role = lit ''user'', content = transcript\<rparr>)
   \<and> snd (generateAssistantReply cfg sv transcript history) =
        [LlmCreate \<lparr>model = llmModel cfg, messages = build_messages cfg transcript history,
                    temperature = 7 / 10\<rparr>]"
  by (simp add: build_messages_def generateAssistantReply_sent completion_request_def
        butlast_append)

theorem build_messages_order_witness:
  "llmPostprompt default_config = []
   \<and> last (build_messages default_config (lit ''hello'') [])
       = \<lparr>role = lit ''user'', content = lit ''hello''\<rparr>
   \<and> llmPostprompt postscript_config \<noteq> []
   \<and> last (build_messages postscript_config (lit ''hello'') [])
       = \<lparr>role = lit ''user'', content = lit ''Be brief.''\<rparr>
   \<and> last (butlast (build_messages postscript_config (lit ''hello'') []))
       = \<lparr>role = lit ''user'', content = lit ''hello''\<rparr>"
proof -
  have a: "llmPostprompt default_config = []" by code_simp
  have b: "llmPostprompt postscript_config = lit ''Be brief.''" by code_simp
  have c: "lit ''Be brief.'' \<noteq> []" by (simp add: lit_def)
  show ?thesis
    using build_messages_order [of default_config "lit ''hello''" "[]"]
          build_messages_order [of postscript_config "lit ''hello''" "[]"]
          a b c
    by simp
qed

text \<open>
  C6 as stated fails: with a postscript configured, the last message sent with the role
  \<open>user\<close> is the postscript, not the transcript.
\<close>

theorem final_user_message_counterexample:
  "last (user_messages (build_messages postscript_config (lit ''hello'') []))
     \<noteq> \<lparr>role = lit ''user'', content = lit ''hello''\<rparr>"
  by code_simp

lemma handler_tts_text:
  assumes "TtsFetch url payload \<in> set (snd (chat_handler cfg sv ref req))"
  shows "syn_text payload \<noteq> []"
proof (cases "req_file req")
  case None
  then show ?thesis
    using assms by (cases req) (simp_all add: handler_no_file handler_no_body handler_catch_def)
next
  case (Some f)
  let ?T = "transcribeAudio cfg sv (buffer f) (originalname f) (mimetype f) (whisperTranslate cfg)"
  let ?form = "whisper_form_of (buffer f) (originalname f) (mimetype f) (whisperTranslate cfg)"
  let ?h = "normalizeChatHistory (json_parse sv) (req_chatHistory req)"
  have T: "?T = (fst ?T, [WhisperFetch (whisperUrl cfg) ?form])"
    by (simp add: prod_eq_iff transcribeAudio_sent)
  show ?thesis
  proof (cases "fst ?T")
    case (Inl e)
    with T have "?T = (Inl e, [WhisperFetch (whisperUrl cfg) ?form])" by simp
    with Some have "chat_handler cfg sv ref req
                      = handler_catch e [WhisperFetch (whisperUrl cfg) ?form]"
      by (rule handler_transcription_fails)
    then show ?thesis using assms by (simp add: handler_catch_def)
  next
    case (Inr t)
    with T have T': "?T = (Inr t, [WhisperFetch (whisperUrl cfg) ?form])" by simp
    let ?G = "generateAssistantReply cfg sv t ?h"
    have G: "?G = (fst ?G, [LlmCreate (completion_request cfg t ?h)])"
      by (simp add: prod_eq_iff generateAssistantReply_sent)
    show ?thesis
    proof (cases "fst ?G")
      case (Inl e)
      with G have "?G = (Inl e, [LlmCreate (completion_request cfg t ?h)])" by simp
      with Some T' have "chat_handler cfg sv ref req
              = handler_catch e ([WhisperFetch (whisperUrl cfg) ?form]
                                 @ [LlmCreate (completion_request cfg t ?h)])"
        by (rule handler_completion_fails)
      then show ?thesis using assms by (simp add: handler_catch_def)
    next
      case (Inr r)
      with G have G': "?G = (Inr r, [LlmCreate (completion_request cfg t ?h)])" by simp
      have r: "r \<noteq> []"
        using generateAssistantReply_nonempty [of cfg sv t ?h] Inr by auto
      let ?S = "synthesizeSpeech cfg sv r (referenceAudioBuffer ref) (referenceText ref) (synLang cfg)"
      let ?p = "clone_payload sv r (referenceAudioBuffer ref) (referenceText ref) (synLang cfg)"
      have S: "?S = (fst ?S, [TtsFetch (clone_url cfg) ?p])"
        by (simp add: prod_eq_iff synthesizeSpeech_sent)
      have p: "syn_text ?p = r" by (simp add: clone_payload_def)
      show ?thesis
      proof (cases "fst ?S")
        case (Inl e)
        with S have "?S = (Inl e, [TtsFetch (clone_url cfg) ?p])" by simp
        with Some T' G' have "chat_handler cfg sv ref req
              = handler_catch e ([WhisperFetch (whisperUrl cfg) ?form]
                                 @ [LlmCreate (completion_request cfg t ?h)]
                                 @ [TtsFetch (clone_url cfg) ?p])"
          by (rule handler_synthesis_fails)
        then show ?thesis using assms r p by (auto simp: handler_catch_def)
      next
        case (Inr a)
        with S have "?S = (Inr a, [TtsFetch (clone_url cfg) ?p])" by simp
        with Some T' G' have "chat_handler cfg sv ref req =
           (\<lparr>reply_status = 200,
             reply_json = JObj [(lit ''transcript'', JStr t), (lit ''assistantReply'', JStr r),
                                (lit ''audioBase64'', a)]\<rparr>,
            [WhisperFetch (whisperUrl cfg) ?form] @ [LlmCreate (completion_request cfg t ?h)]
            @ [TtsFetch (clone_url cfg) ?p])"
          by (rule handler_success)
        then show ?thesis using assms r p by auto
      qed
    qed
  qed
qed

lemma generateAssistantReply_blank:
  assumes "llm sv (completion_request cfg t h) = Inr completion"
    and "message_content completion = Inr c"
    and "c = JUndefined \<or> c = JNull \<or> (\<exists>s. c = JStr s \<and> trim s = [])"
  shows "generateAssistantReply cfg sv t h
           = (Inl (JsError (lit ''LLM response was empty.'')), [LlmCreate (completion_request cfg t h)])"
  using assms by (auto simp: generateAssistantReply_def Let_def trim_call_def)

lemma blank_content_is_empty_reply:
  "(llm sv (completion_request cfg transcript history) = Inr completion
      \<and> message_content completion = Inr c
      \<and> (c = JUndefined \<or> c = JNull \<or> (\<exists>s. c = JStr s \<and> trim s = []))
     \<longrightarrow> generateAssistantReply cfg sv transcript history
           = (Inl (JsError (lit ''LLM response was empty.'')),
              [LlmCreate (completion_request cfg transcript history)]))
   \<and> fst (generateAssistantReply cfg sv transcript history) \<noteq> Inr []
   \<and> (\<forall>url payload. TtsFetch url payload \<in> set (snd (chat_handler cfg sv ref req))
          \<longrightarrow> syn_text payload \<noteq> [])"
  using generateAssistantReply_blank [of sv cfg transcript history completion c]
        generateAssistantReply_nonempty [of cfg sv transcript history]
        handler_tts_text [of _ _ cfg sv ref req]
  by blast

lemma message_content_of_body:
  "(\<exists>c. message_content completion = Inr c) \<longleftrightarrow> \<not> nullish completion"
  by (simp add: message_content_def Let_def)

text \<open>
  C3 fails on the code for a response whose body is \<open>null\<close>. When the body is an object
  (or any value but \<open>null\<close> and \<open>undefined\<close>) and the content read through the optional
  chain is missing, null or blank, the stage fails with "LLM response was empty.", and
  in no case is an empty string returned or sent to the synthesis service
  (\<open>blank_content_is_empty_reply\<close>). But \<open>completion.choices\<close> itself is read without
  \<open>?.\<close>: for the body \<open>null\<close>, which has no message content either, the read throws and
  the stage fails with the message of that \<open>TypeError\<close>, not with the empty-reply error.
\<close>

theorem null_completion_is_type_error:
  "llm null_body_services (completion_request default_config (lit ''hello'') []) = Inr JNull
   \<and> generateAssistantReply default_config null_body_services (lit ''hello'') []
       = (Inl (JsError cannot_read_choices),
          [LlmCreate (completion_request default_config (lit ''hello'') [])])
   \<and> JsError cannot_read_choices \<noteq> JsError (lit ''LLM response was empty.'')
   \<and> chat_handler default_config null_body_services example_voice example_request
       = (\<lparr>reply_status = 500,
            reply_json = JObj [(lit ''error'', JStr cannot_read_choices)]\<rparr>,
          [WhisperFetch (whisperUrl default_config)
             (whisper_form_of (buffer example_upload) (originalname example_upload)
                (mimetype example_upload) (whisperTranslate default_config)),
           LlmCreate (completion_request default_config (lit ''hello'') []),
           ConsoleError (JsError cannot_read_choices)])"
  by code_simp

section \<open>The client\<close>

lemma chatHistory_setStatus [simp]: "chatHistory (setStatus m c) = chatHistory c"
  by (simp add: setStatus_def)

lemma chatHistory_updateRecordButton [simp]: "chatHistory (updateRecordButton c) = chatHistory c"
  by (simp add: updateRecordButton_def)

lemma chatHistory_renderChat [simp]: "chatHistory (renderChat c) = chatHistory c"
  by (simp add: renderChat_def split: option.splits)

lemma chatHistory_play [simp]: "chatHistory (playLatestAssistantAudio c) = chatHistory c"
  by (simp add: playLatestAssistantAudio_def split: option.splits list.splits)

lemma chatHistory_send_catch [simp]: "chatHistory (send_catch e c) = chatHistory c"
  by (simp add: send_catch_def)

lemma chatHistory_click_catch [simp]: "chatHistory (click_catch e c) = chatHistory c"
  by (simp add: click_catch_def)

lemma chatHistory_append:
  "chatHistory (appendChatMessage r x a c) =
     (if truthy x then chatHistory c @ [\<lparr>entry_role = r, entry_content = x, entry_audioBase64 = a\<rparr>]
      else chatHistory c)"
  by (simp add: appendChatMessage_def)

lemma chatHistory_clearChat [simp]: "chatHistory (clearChat c) = []"
  by (simp add: clearChat_def)

lemma synthesizeSpeech_truthy:
  "fst (synthesizeSpeech cfg sv t a rt l) = Inr v \<Longrightarrow> truthy v"
  by (auto simp: synthesizeSpeech_def Let_def split: sum.splits if_splits)

lemma generateAssistantReply_result_nonempty:
  "fst (generateAssistantReply cfg sv t h) = Inr r \<Longrightarrow> r \<noteq> []"
  by (auto simp: generateAssistantReply_def Let_def split: sum.splits option.splits if_splits)

lemma keys_distinct:
  "lit ''transcript'' \<noteq> lit ''audioBase64''"
  "lit ''assistantReply'' \<noteq> lit ''audioBase64''"
  "lit ''transcript'' \<noteq> lit ''assistantReply''"
  "lit ''assistantReply'' \<noteq> lit ''transcript''"
  by (simp_all add: lit_def)

lemma sendRecording_single_success:
  assumes "r \<noteq> []" and "truthy a"
  shows "chatHistory (sendRecording_single b
            (deliver \<lparr>reply_status = 200,
                      reply_json = JObj [(lit ''transcript'', JStr t),
                                         (lit ''assistantReply'', JStr r),
                                         (lit ''audioBase64'', a)]\<rparr>) c)
         = chatHistory c
           @ (if t \<noteq> [] then [\<lparr>entry_role = lit ''user'', entry_content = JStr t,
                                 entry_audioBase64 = JNull\<rparr>] else [])
           @ [\<lparr>entry_role = lit ''assistant'', entry_content = JStr r, entry_audioBase64 = a\<rparr>]"
  using assms
  by (simp add: sendRecording_single_def deliver_def checked_json_def Let_def keys_distinct
        keys_distinct [symmetric] chatHistory_append)


lemma handler_success_fst:
  assumes "req_file req = Some f"
    and "fst (transcribeAudio cfg sv (buffer f) (originalname f) (mimetype f) (whisperTranslate cfg))
           = Inr t"
    and "fst (generateAssistantReply cfg sv t
                (normalizeChatHistory (json_parse sv) (req_chatHistory req))) = Inr r"
    and "fst (synthesizeSpeech cfg sv r (referenceAudioBuffer ref) (referenceText ref)
                (synLang cfg)) = Inr a"
  shows "fst (chat_handler cfg sv ref req) =
           \<lparr>reply_status = 200,
            reply_json = JObj [(lit ''transcript'', JStr t), (lit ''assistantReply'', JStr r),
                               (lit ''audioBase64'', a)]\<rparr>"
proof -
  let ?T = "transcribeAudio cfg sv (buffer f) (originalname f) (mimetype f) (whisperTranslate cfg)"
  let ?G = "generateAssistantReply cfg sv t
              (normalizeChatHistory (json_parse sv) (req_chatHistory req))"
  let ?S = "synthesizeSpeech cfg sv r (referenceAudioBuffer ref) (referenceText ref) (synLang cfg)"
  have "?T = (Inr t, snd ?T)" "?G = (Inr r, snd ?G)" "?S = (Inr a, snd ?S)"
    using assms(2-4) by (simp_all add: prod_eq_iff)
  with assms(1) have "chat_handler cfg sv ref req =
           (\<lparr>reply_status = 200,
             reply_json = JObj [(lit ''transcript'', JStr t), (lit ''assistantReply'', JStr r),
                                (lit ''audioBase64'', a)]\<rparr>,
            snd ?T @ snd ?G @ snd ?S)"
    by (rule handler_success)
  then show ?thesis by simp
qed

text \<open>
  C1 (amended). When the three stages succeed, the endpoint answers with status 200 and
  exactly the object of the transcript, the reply and the audio value. When the
  transcript is not empty, the client appends exactly two turns, the user's with the
  transcript and then the assistant's with the reply and the audio; when the transcript
  is empty it appends the assistant's turn only.
\<close>

theorem successful_turn_round_trip:
  assumes "req_file req = Some f"
    and "fst (transcribeAudio cfg sv (buffer f) (originalname f) (mimetype f) (whisperTranslate cfg))
           = Inr transcript"
    and "fst (generateAssistantReply cfg sv transcript
                (normalizeChatHistory (json_parse sv) (req_chatHistory req))) = Inr assistantReply"
    and "fst (synthesizeSpeech cfg sv assistantReply (referenceAudioBuffer ref) (referenceText ref)
                (synLang cfg)) = Inr audioBase64"
  shows
    "fst (chat_handler cfg sv ref req) =
       \<lparr>reply_status = 200,
        reply_json = JObj [(lit ''transcript'', JStr transcript),
                           (lit ''assistantReply'', JStr assistantReply),
                           (lit ''audioBase64'', audioBase64)]\<rparr>
     \<and> (transcript \<noteq> [] \<longrightarrow>
          chatHistory (sendRecording_single b (deliver (fst (chat_handler cfg sv ref req))) c)
            = chatHistory c
              @ [\<lparr>entry_role = lit ''user'', entry_content = JStr transcript,
                   entry_audioBase64 = JNull\<rparr>,
                 \<lparr>entry_role = lit ''assistant'', entry_content = JStr assistantReply,
                   entry_audioBase64 = audioBase64\<rparr>])
     \<and> (transcript = [] \<longrightarrow>
          chatHistory (sendRecording_single b (deliver (fst (chat_handler cfg sv ref req))) c)
            = chatHistory c
              @ [\<lparr>entry_role = lit ''assistant'', entry_content = JStr assistantReply,
                   entry_audioBase64 = audioBase64\<rparr>])"
proof -
  have r: "assistantReply \<noteq> []"
    using assms(3) by (rule generateAssistantReply_result_nonempty)
  have a: "truthy audioBase64"
    using assms(4) by (rule synthesizeSpeech_truthy)
  have h: "fst (chat_handler cfg sv ref req) =
       \<lparr>reply_status = 200,
        reply_json = JObj [(lit ''transcript'', JStr transcript),
                           (lit ''assistantReply'', JStr assistantReply),
                           (lit ''audioBase64'', audioBase64)]\<rparr>"
    using assms by (rule handler_success_fst)
  show ?thesis
    unfolding h using sendRecording_single_success [OF r a, of b transcript c]
    by (cases "transcript = []") auto
qed

lemma sendRecording_chat_endpoint:
  "request_of (make_submission b audioBlob filename c) = Some req \<Longrightarrow>
   sendRecording b (chat_endpoint cfg sv ref) audioBlob filename c =
     sendRecording_single b (deliver (fst (chat_handler cfg sv ref req))) c"
  by (simp add: sendRecording_def chat_endpoint_def Let_def)

theorem successful_turn_round_trip_witness:
  "req_file example_request = Some example_upload
   \<and> fst (transcribeAudio default_config happy_services (buffer example_upload)
             (originalname example_upload) (mimetype example_upload)
             (whisperTranslate default_config)) = Inr (lit ''hello'')
   \<and> fst (generateAssistantReply default_config happy_services (lit ''hello'')
             (normalizeChatHistory (json_parse happy_services) (req_chatHistory example_request)))
       = Inr (lit ''hi there'')
   \<and> fst (synthesizeSpeech default_config happy_services (lit ''hi there'')
             (referenceAudioBuffer example_voice) (referenceText example_voice)
             (synLang default_config)) = Inr (JStr (lit ''UklGRg==''))
   \<and> lit ''hello'' \<noteq> []
   \<and> fst (chat_handler default_config happy_services example_voice example_request)
       = \<lparr>reply_status = 200,
          reply_json = JObj [(lit ''transcript'', JStr (lit ''hello'')),
                             (lit ''assistantReply'', JStr (lit ''hi there'')),
                             (lit ''audioBase64'', JStr (lit ''UklGRg==''))]\<rparr>
   \<and> chatHistory (sendRecording example_browser
                     (chat_endpoint default_config happy_services example_voice)
                     example_blob (lit ''recording.webm'') (initial_client True True))
       = [\<lparr>entry_role = lit ''user'', entry_content = JStr (lit ''hello''),
           entry_audioBase64 = JNull\<rparr>,
          \<lparr>entry_role = lit ''assistant'', entry_content = JStr (lit ''hi there''),
           entry_audioBase64 = JStr (lit ''UklGRg=='')\<rparr>]"
proof -
  have a: "req_file example_request = Some example_upload"
    by (simp add: example_request_def)
  have b: "fst (transcribeAudio default_config happy_services (buffer example_upload)
             (originalname example_upload) (mimetype example_upload)
             (whisperTranslate default_config)) = Inr (lit ''hello'')"
    by code_simp
  have c: "fst (generateAssistantReply default_config happy_services (lit ''hello'')
             (normalizeChatHistory (json_parse happy_services) (req_chatHistory example_request)))
       = Inr (lit ''hi there'')"
    by code_simp
  have d: "fst (synthesizeSpeech default_config happy_services (lit ''hi there'')
             (referenceAudioBuffer example_voice) (referenceText example_voice)
             (synLang default_config)) = Inr (JStr (lit ''UklGRg==''))"
    by code_simp
  have e: "lit ''hello'' \<noteq> []" by (simp add: lit_def)
  have f: "request_of (make_submission example_browser example_blob (lit ''recording.webm'')
                         (initial_client True True)) = Some example_request"
    by code_simp
  have g: "chatHistory (initial_client True True) = []" by code_simp
  note t = successful_turn_round_trip [OF a b c d, of example_browser "initial_client True True"]
  have h: "fst (chat_handler default_config happy_services example_voice example_request)
       = \<lparr>reply_status = 200,
          reply_json = JObj [(lit ''transcript'', JStr (lit ''hello'')),
                             (lit ''assistantReply'', JStr (lit ''hi there'')),
                             (lit ''audioBase64'', JStr (lit ''UklGRg==''))]\<rparr>"
    using t by blast
  have k: "chatHistory (sendRecording_single example_browser
                          (deliver (fst (chat_handler default_config happy_services
                                           example_voice example_request)))
                          (initial_client True True))
       = chatHistory (initial_client True True)
         @ [\<lparr>entry_role = lit ''user'', entry_content = JStr (lit ''hello''),
              entry_audioBase64 = JNull\<rparr>,
            \<lparr>entry_role = lit ''assistant'', entry_content = JStr (lit ''hi there''),
              entry_audioBase64 = JStr (lit ''UklGRg=='')\<rparr>]"
    using t e by blast
  have k': "chatHistory (sendRecording example_browser
                     (chat_endpoint default_config happy_services example_voice)
                     example_blob (lit ''recording.webm'') (initial_client True True))
       = [\<lparr>entry_role = lit ''user'', entry_content = JStr (lit ''hello''),
           entry_audioBase64 = JNull\<rparr>,
          \<lparr>entry_role = lit ''assistant'', entry_content = JStr (lit ''hi there''),
           entry_audioBase64 = JStr (lit ''UklGRg=='')\<rparr>]"
    unfolding sendRecording_chat_endpoint [OF f] k g by simp
  show ?thesis using a b c d e h k' by blast
qed

text \<open>
  C1 as stated fails: when the transcription service hears only white space, the three
  stages succeed with an empty transcript, and the history gains one turn, not two.
\<close>

theorem blank_transcript_counterexample:
  "fst (transcribeAudio default_config silent_services (buffer example_upload)
          (originalname example_upload) (mimetype example_upload)
          (whisperTranslate default_config)) = Inr []
   \<and> fst (generateAssistantReply default_config silent_services [] []) = Inr (lit ''hi there'')
   \<and> fst (synthesizeSpeech default_config silent_services (lit ''hi there'')
            (referenceAudioBuffer example_voice) (referenceText example_voice)
            (synLang default_config)) = Inr (JStr (lit ''UklGRg==''))
   \<and> chatHistory (sendRecording example_browser
                     (chat_endpoint default_config silent_services example_voice)
                     example_blob (lit ''recording.webm'') (initial_client True True))
       = [\<lparr>entry_role = lit ''assistant'', entry_content = JStr (lit ''hi there''),
           entry_audioBase64 = JStr (lit ''UklGRg=='')\<rparr>]
   \<and> length (chatHistory (sendRecording example_browser
                             (chat_endpoint default_config silent_services example_voice)
                             example_blob (lit ''recording.webm'') (initial_client True True)))
       \<noteq> length (chatHistory (initial_client True True)) + 2"
  by code_simp

lemma only_appends_iff:
  "only_appends c c' \<longleftrightarrow>
     (\<exists>new. chatHistory c' = chatHistory c @ new
            \<and> list_all (\<lambda>entry. truthy (entry_content entry)) new)"
proof
  assume "only_appends c c'"
  then have "chatHistory c' = chatHistory c @ drop (length (chatHistory c)) (chatHistory c')"
    and "list_all (\<lambda>entry. truthy (entry_content entry)) (drop (length (chatHistory c)) (chatHistory c'))"
    unfolding only_appends_def by (metis append_take_drop_id, simp)
  then show "\<exists>new. chatHistory c' = chatHistory c @ new
            \<and> list_all (\<lambda>entry. truthy (entry_content entry)) new"
    by blast
next
  assume "\<exists>new. chatHistory c' = chatHistory c @ new
            \<and> list_all (\<lambda>entry. truthy (entry_content entry)) new"
  then show "only_appends c c'" by (auto simp: only_appends_def)
qed

lemma only_appends_same: "chatHistory c' = chatHistory c \<Longrightarrow> only_appends c c'"
  by (simp add: only_appends_iff)

lemma only_appends_trans: "only_appends c c1 \<Longrightarrow> only_appends c1 c2 \<Longrightarrow> only_appends c c2"
  by (auto simp: only_appends_iff)

lemma only_appends_then_same:
  "only_appends c c1 \<Longrightarrow> chatHistory c2 = chatHistory c1 \<Longrightarrow> only_appends c c2"
  by (auto simp: only_appends_iff)

lemma only_appends_setStatus: "only_appends c c1 \<Longrightarrow> only_appends c (setStatus m c1)"
  by (erule only_appends_then_same) simp

lemma only_appends_send_catch: "only_appends c c1 \<Longrightarrow> only_appends c (send_catch e c1)"
  by (erule only_appends_then_same) simp

lemma only_appends_play: "only_appends c c1 \<Longrightarrow> only_appends c (playLatestAssistantAudio c1)"
  by (erule only_appends_then_same) simp

lemma only_appends_append: "only_appends c c1 \<Longrightarrow> only_appends c (appendChatMessage r x a c1)"
  by (auto simp: only_appends_iff chatHistory_append)

lemma only_appends_refl: "only_appends c c"
  by (simp add: only_appends_iff)

lemmas only_appends_intros =
  only_appends_setStatus only_appends_send_catch only_appends_play only_appends_append
  only_appends_refl

lemma only_appends_single: "only_appends c (sendRecording_single b r c)"
  unfolding sendRecording_single_def Let_def
  by (auto split: sum.splits intro!: only_appends_intros)

lemma only_appends_staged:
  "only_appends c (sendRecording_staged b transcribe_api llm_api tts_api formData payload c)"
  unfolding sendRecording_staged_def Let_def
  by (auto split: sum.splits intro!: only_appends_intros)

lemma only_appends_sendRecording: "only_appends c (sendRecording b net audioBlob filename c)"
  by (cases net) (simp_all add: sendRecording_def Let_def only_appends_single only_appends_staged)

lemma history_ok_only_appends: "history_ok c \<Longrightarrow> only_appends c c' \<Longrightarrow> history_ok c'"
  by (auto simp: history_ok_def only_appends_iff)


lemma click_keeps_history [simp]: "chatHistory (record_click c) = chatHistory c"
  by (simp add: record_click_def stopRecording_begin_def startRecording_begin_def
        split: option.splits)

lemma granted_keeps_history [simp]: "chatHistory (startRecording_granted b stream c) = chatHistory c"
  by (simp add: startRecording_granted_def Let_def)

lemma denied_keeps_history [simp]: "chatHistory (startRecording_denied error c) = chatHistory c"
  by (simp add: startRecording_denied_def)

lemma data_keeps_history [simp]: "chatHistory (ondataavailable chunk c) = chatHistory c"
  by (simp add: ondataavailable_def)

lemma only_appends_stopped: "only_appends c (stopRecording_stopped b net c)"
proof (cases "mediaRecorder c")
  case None
  then show ?thesis by (simp add: stopRecording_stopped_def only_appends_refl)
next
  case (Some r)
  show ?thesis
  proof (cases "stopPending c")
    case False
    with Some show ?thesis
      by (simp add: stopRecording_stopped_def Let_def only_appends_same)
  next
    case True
    define c2 where
      "c2 = updateRecordButton
              (c\<lparr>mediaRecorder := Some (r\<lparr>rec_state := Inactive\<rparr>),
                 liveStreams := removeAll (rec_stream r) (liveStreams c),
                 stopPending := False, isRecording := False\<rparr>)"
    have "only_appends c c2" by (simp add: c2_def only_appends_same)
    moreover have "only_appends c2 (sendRecording b net audioBlob filename c2)"
      for audioBlob filename
      by (rule only_appends_sendRecording)
    ultimately show ?thesis
      using Some True
      by (auto simp: stopRecording_stopped_def Let_def c2_def intro: only_appends_trans)
  qed
qed

lemma step_only_appends: "ev \<noteq> ClearClick \<Longrightarrow> only_appends c (client_step b net ev c)"
  by (cases ev) (simp_all add: client_step_def only_appends_same only_appends_stopped only_appends_refl)

lemma step_keeps_history:
  "ev \<noteq> ClearClick \<Longrightarrow> ev \<noteq> RecorderStopped \<Longrightarrow>
   chatHistory (client_step b net ev c) = chatHistory c"
  by (cases ev) (simp_all add: client_step_def)

lemma step_history_ok: "history_ok c \<Longrightarrow> history_ok (client_step b net ev c)"
proof (cases "ev = ClearClick")
  case True
  then show ?thesis by (simp add: client_step_def history_ok_def)
next
  case False
  assume "history_ok c"
  then show ?thesis using step_only_appends [OF False] by (rule history_ok_only_appends)
qed

lemma initial_history_ok: "history_ok (initial_client isSecureOrigin hasChatLog)"
  by (simp add: initial_client_def history_ok_def Let_def)

lemma run_events_history_ok: "history_ok c \<Longrightarrow> history_ok (run_events b net evs c)"
  unfolding run_events_def
  by (induction evs arbitrary: c) (simp_all add: step_history_ok)

text \<open>
  C10. The history is empty at load; appending a message whose content is falsy (empty
  or missing) changes nothing, and appending one whose content is truthy adds that one
  turn; clearing empties the history; every event other than the clear button leaves
  the old turns in place and adds only turns with truthy content, and every event other
  than the clear button and the end of a recording leaves the history as it is. So
  every stored turn has truthy content after any sequence of events, with the single
  endpoint or with the staged ones.
\<close>

theorem history_entries_have_content:
  "history_ok (initial_client isSecureOrigin hasChatLog)
   \<and> (\<not> truthy x \<longrightarrow> appendChatMessage r x a c = c)
   \<and> (truthy x \<longrightarrow>
        chatHistory (appendChatMessage r x a c)
          = chatHistory c @ [\<lparr>entry_role = r, entry_content = x, entry_audioBase64 = a\<rparr>])
   \<and> chatHistory (clearChat c) = []
   \<and> (ev \<noteq> ClearClick \<longrightarrow> only_appends c (client_step b net ev c))
   \<and> (ev \<noteq> ClearClick \<and> ev \<noteq> RecorderStopped \<longrightarrow>
        chatHistory (client_step b net ev c) = chatHistory c)
   \<and> (history_ok c \<longrightarrow> history_ok (client_step b net ev c))
   \<and> history_ok (run_events b net evs (initial_client isSecureOrigin hasChatLog))"
  using initial_history_ok [of isSecureOrigin hasChatLog] step_only_appends [of ev c b net]
        step_keeps_history [of ev b net c] step_history_ok [of c b net ev]
        run_events_history_ok [OF initial_history_ok, of b net evs isSecureOrigin hasChatLog]
  by (simp add: chatHistory_append appendChatMessage_def)

theorem history_entries_have_content_witness:
  "\<not> truthy (JStr [])
   \<and> appendChatMessage (lit ''user'') (JStr []) JNull (initial_client True True)
       = initial_client True True
   \<and> truthy (JStr (lit ''hello''))
   \<and> chatHistory (appendChatMessage (lit ''user'') (JStr (lit ''hello'')) JNull
                     (initial_client True True))
       = [\<lparr>entry_role = lit ''user'', entry_content = JStr (lit ''hello''),
           entry_audioBase64 = JNull\<rparr>]
   \<and> RecorderStopped \<noteq> ClearClick
   \<and> history_ok (initial_client True True)
   \<and> history_ok (client_step example_browser
                    (chat_endpoint default_config happy_services example_voice)
                    RecorderStopped (initial_client True True))
   \<and> chatHistory (run_events example_browser
                     (chat_endpoint default_config happy_services example_voice)
                     [RecordClick, MicGranted 1, DataAvailable [0x1A, 0x45], RecordClick,
                      RecorderStopped]
                     (initial_client True True))
       = [\<lparr>entry_role = lit ''user'', entry_content = JStr (lit ''hello''),
           entry_audioBase64 = JNull\<rparr>,
          \<lparr>entry_role = lit ''assistant'', entry_content = JStr (lit ''hi there''),
           entry_audioBase64 = JStr (lit ''UklGRg=='')\<rparr>]
   \<and> history_ok (run_events example_browser
                    (chat_endpoint default_config happy_services example_voice)
                    [RecordClick, MicGranted 1, DataAvailable [0x1A, 0x45], RecordClick,
                     RecorderStopped]
                    (initial_client True True))"
proof -
  have a: "truthy (JStr (lit ''hello''))" by (simp add: lit_def)
  have b: "chatHistory (initial_client True True) = []" by code_simp
  have c: "chatHistory (run_events example_browser
                     (chat_endpoint default_config happy_services example_voice)
                     [RecordClick, MicGranted 1, DataAvailable [0x1A, 0x45], RecordClick,
                      RecorderStopped]
                     (initial_client True True))
       = [\<lparr>entry_role = lit ''user'', entry_content = JStr (lit ''hello''),
           entry_audioBase64 = JNull\<rparr>,
          \<lparr>entry_role = lit ''assistant'', entry_content = JStr (lit ''hi there''),
           entry_audioBase64 = JStr (lit ''UklGRg=='')\<rparr>]"
    by code_simp
  show ?thesis
    using history_entries_have_content
            [where isSecureOrigin = True and hasChatLog = True and x = "JStr []"
               and r = "lit ''user''" and a = JNull and c = "initial_client True True"
               and ev = RecorderStopped and b = example_browser
               and net = "chat_endpoint default_config happy_services example_voice"
               and evs = "[RecordClick, MicGranted 1, DataAvailable [0x1A, 0x45], RecordClick,
                           RecorderStopped]"]
          history_entries_have_content
            [where isSecureOrigin = True and hasChatLog = True and x = "JStr (lit ''hello'')"
               and r = "lit ''user''" and a = JNull and c = "initial_client True True"]
          a b c
    by simp
qed

section \<open>The recorder\<close>

lemma same_flags_refl: "same_flags c c"
  by (simp add: same_flags_def)

lemma same_flags_setStatus: "same_flags c c1 \<Longrightarrow> same_flags c (setStatus m c1)"
  by (simp add: same_flags_def setStatus_def)

lemma same_flags_send_catch: "same_flags c c1 \<Longrightarrow> same_flags c (send_catch e c1)"
  by (simp add: same_flags_def send_catch_def setStatus_def)

lemma same_flags_play: "same_flags c c1 \<Longrightarrow> same_flags c (playLatestAssistantAudio c1)"
  by (simp add: same_flags_def playLatestAssistantAudio_def split: option.splits list.splits)

lemma same_flags_append: "same_flags c c1 \<Longrightarrow> same_flags c (appendChatMessage r x a c1)"
  by (simp add: same_flags_def appendChatMessage_def renderChat_def split: option.splits)

lemmas same_flags_intros =
  same_flags_setStatus same_flags_send_catch same_flags_play same_flags_append same_flags_refl

lemma same_flags_single: "same_flags c (sendRecording_single b r c)"
  unfolding sendRecording_single_def Let_def
  by (auto split: sum.splits intro!: same_flags_intros)

lemma same_flags_staged:
  "same_flags c (sendRecording_staged b transcribe_api llm_api tts_api formData payload c)"
  unfolding sendRecording_staged_def Let_def
  by (auto split: sum.splits intro!: same_flags_intros)

lemma same_flags_sendRecording: "same_flags c (sendRecording b net audioBlob filename c)"
  by (cases net) (simp_all add: sendRecording_def Let_def same_flags_single same_flags_staged)

lemma stopped_flags:
  "stopPending (stopRecording_stopped b net c) \<longrightarrow> isRecording (stopRecording_stopped b net c)"
  if "stopPending c \<longrightarrow> isRecording c"
proof (cases "mediaRecorder c")
  case None
  then show ?thesis using that by (simp add: stopRecording_stopped_def)
next
  case (Some r)
  show ?thesis
  proof (cases "stopPending c")
    case False
    with Some show ?thesis by (simp add: stopRecording_stopped_def Let_def)
  next
    case True
    with Some show ?thesis
      using same_flags_sendRecording
      by (simp add: stopRecording_stopped_def Let_def same_flags_def updateRecordButton_def)
  qed
qed

lemma step_flags:
  assumes "stopPending c \<longrightarrow> isRecording c"
  shows "stopPending (client_step b net ev c) \<longrightarrow> isRecording (client_step b net ev c)"
proof (cases ev)
  case RecorderStopped
  then show ?thesis using stopped_flags [OF assms] by (simp add: client_step_def)
qed (use assms in \<open>auto simp: client_step_def record_click_def stopRecording_begin_def
       startRecording_begin_def setStatus_def clearChat_def renderChat_def
       startRecording_granted_def Let_def click_catch_def updateRecordButton_def
       startRecording_denied_def ondataavailable_def split: option.splits if_splits\<close>)

lemma initial_flags: "stopPending (initial_client s h) \<longrightarrow> isRecording (initial_client s h)"
  by (simp add: initial_client_def Let_def renderChat_def updateRecordButton_def
        setStatus_def split: option.splits)

lemma reachable_flags:
  "stopPending (run_events b net evs (initial_client s h))
     \<longrightarrow> isRecording (run_events b net evs (initial_client s h))"
proof -
  have "(stopPending c \<longrightarrow> isRecording c) \<Longrightarrow>
        stopPending (run_events b net evs c) \<longrightarrow> isRecording (run_events b net evs c)" for c
    unfolding run_events_def
    by (induction evs arbitrary: c) (simp_all add: step_flags)
  then show ?thesis using initial_flags by blast
qed

lemma start_while_recording_is_noop: "isRecording c \<Longrightarrow> startRecording_begin c = c"
  by (simp add: startRecording_begin_def)

lemma start_is_noop_when_recording_or_finalizing:
  assumes "c = run_events b net evs (initial_client s h)"
    and "spec_phase c = Recording \<or> spec_phase c = Finalizing"
  shows "startRecording_begin c = c"
proof -
  have "isRecording c"
    using assms reachable_flags [of b net evs s h]
    by (auto simp: spec_phase_def split: if_splits)
  then show ?thesis by (rule start_while_recording_is_noop)
qed

text \<open>
  C7 fails on the code while the recorder is requesting. After one click on the record
  button the client waits for \<open>getUserMedia\<close> and \<open>isRecording\<close> is still false, so a
  second start is not stopped by the guard: it changes the state and calls
  \<open>getUserMedia\<close> a second time, and once both calls are granted two streams are live.
\<close>

theorem second_start_while_requesting:
  "isRecording (initial_client True True) = False
   \<and> spec_phase (record_click (initial_client True True)) = Requesting
   \<and> micRequests (record_click (initial_client True True)) = 1
   \<and> startRecording_begin (record_click (initial_client True True))
       \<noteq> record_click (initial_client True True)
   \<and> micRequests (startRecording_begin (record_click (initial_client True True))) = 2
   \<and> micRequests (record_click (record_click (initial_client True True))) = 2
   \<and> liveStreams (run_events example_browser
                    (chat_endpoint default_config happy_services example_voice)
                    [RecordClick, RecordClick, MicGranted 1, MicGranted 2]
                    (initial_client True True)) = [2, 1]"
  by code_simp

section \<open>The reference voice\<close>

lemma missing_audio_file_fails:
  "readFileSync n (referenceAudioPath n) = Inl e \<Longrightarrow> load_reference_voice n = Inl e"
  by (simp add: load_reference_voice_def)

lemma missing_text_file_fails:
  "readFileSync n (referenceAudioPath n) = Inr audio \<Longrightarrow>
   readFileSync n (referenceTextPath n) = Inl e \<Longrightarrow> load_reference_voice n = Inl e"
  by (simp add: load_reference_voice_def)

lemma blank_text_file_fails:
  "readFileSync n (referenceAudioPath n) = Inr audio \<Longrightarrow>
   readFileSync n (referenceTextPath n) = Inr raw \<Longrightarrow> trim (utf8 n raw) = [] \<Longrightarrow>
   load_reference_voice n = Inl (JsError (lit ''Reference text file is empty.''))"
  by (simp add: load_reference_voice_def)

lemma audio_bytes_unchecked:
  "readFileSync n (referenceAudioPath n) = Inr audio \<Longrightarrow>
   readFileSync n (referenceTextPath n) = Inr raw \<Longrightarrow> trim (utf8 n raw) \<noteq> [] \<Longrightarrow>
   load_reference_voice n
     = Inr \<lparr>referenceAudioBuffer = audio, referenceText = trim (utf8 n raw)\<rparr>"
  by (simp add: load_reference_voice_def)

text \<open>
  C8 fails on the code for an empty audio file: with a reference audio file of no bytes
  and a reference text "Hi.", loading succeeds with an empty audio buffer, whereas an
  empty text file next to a sound audio file stops the process.
\<close>

theorem empty_reference_audio_starts:
  "readFileSync (example_node (Some []) (Some [0x48, 0x69, 0x2E]))
     (referenceAudioPath (example_node (Some []) (Some [0x48, 0x69, 0x2E]))) = Inr []
   \<and> load_reference_voice (example_node (Some []) (Some [0x48, 0x69, 0x2E]))
       = Inr \<lparr>referenceAudioBuffer = [], referenceText = lit ''Hi.''\<rparr>
   \<and> load_reference_voice (example_node (Some [0x52, 0x49, 0x46, 0x46]) (Some []))
       = Inl (JsError (lit ''Reference text file is empty.''))"
  by code_simp

end
